theory Spec2Isabelle
  imports Complex_Main
begin

section \<open>Overview\<close>

text \<open>
  The development embeds the two drop targets of the form builder:
  \<^verbatim>\<open>DragDropReorderingItem\<close> (its \<^verbatim>\<open>findParentRowLayout\<close> helper and the
  \<^verbatim>\<open>hover\<close> and \<^verbatim>\<open>drop\<close> callbacks handed to \<^verbatim>\<open>useDrop\<close>) and
  \<^verbatim>\<open>DeleteZone\<close> (its \<^verbatim>\<open>drop\<close> callback).

  Conventions of the embedding.
  \<^item> JavaScript numbers that hold pixel coordinates are IEEE 754 doubles, modelled by the
    type \<open>number\<close> of the next section: every arithmetic result is rounded to the nearest
    double, ties to even, and overflows to an infinity. List indices are modelled as
    \<^typ>\<open>int\<close>.
  \<^item> A value that may be \<^verbatim>\<open>null\<close> or \<^verbatim>\<open>undefined\<close> is an \<open>option\<close>; an object
    is truthy, a string is truthy when it is not empty.
  \<^item> Calls of the callback props are recorded, in order, in a trace kept in the state;
    an optional callback prop is a flag telling whether the parent supplied it.
    \<^verbatim>\<open>console.log\<close> is not recorded.
  \<^item> \<^verbatim>\<open>setHoverPosition\<close> updates the state at once, and each callback reads the state
    left by the event before it (\<^verbatim>\<open>useDrop\<close> takes the callbacks anew on every render).
\<close>

section \<open>JavaScript numbers\<close>

text \<open>A JavaScript number is a double: a finite value, given by the real number it denotes,
  one of the two infinities, or NaN. The sign of a zero is not represented: the callbacks
  only subtract, multiply, halve and compare numbers, and no comparison tells \<open>-0\<close> from
  \<open>+0\<close>.\<close>

datatype number = Finite real | PosInfinity | NegInfinity | NaN

text \<open>Rounding to the nearest integer, ties to the even one.\<close>

definition round_half_even :: "real \<Rightarrow> int" where
  "round_half_even q =
     (let f = \<lfloor>q\<rfloor>; r = q - of_int f
      in if r < 1 / 2 then f else if 1 / 2 < r then f + 1 else if even f then f else f + 1)"

text \<open>The exponent of the unit in the last place of the doubles around \<open>x\<close>: 53 significant
  bits for a normal number, the fixed exponent \<open>-1074\<close> in the subnormal range.\<close>

definition ulp_exponent :: "real \<Rightarrow> int" where
  "ulp_exponent x = max (\<lfloor>log 2 \<bar>x\<bar>\<rfloor> - 52) (- 1074)"

text \<open>The exact result \<open>x\<close> of an operation rounded to the grid of doubles around it, with the
  exponent not yet bounded from above.\<close>

definition fl :: "real \<Rightarrow> real" where
  "fl x =
     (if x = 0 then 0
      else of_int (round_half_even (x / 2 powi ulp_exponent x)) * 2 powi ulp_exponent x)"

text \<open>The double that an operation with the exact result \<open>x\<close> returns: a rounded magnitude of
  \<open>2 ^ 1024\<close> or more is an infinity.\<close>

definition round_double :: "real \<Rightarrow> number" where
  "round_double x =
     (let r = fl x
      in if 2 ^ 1024 \<le> r then PosInfinity
         else if r \<le> - (2 ^ 1024) then NegInfinity
         else Finite r)"

text \<open>A decimal literal of the source text, such as \<^verbatim>\<open>0.3\<close>, denotes the double nearest to
  it.\<close>

definition js_lit :: "real \<Rightarrow> number" where
  "js_lit r = round_double r"

text \<open>The operators \<^verbatim>\<open>a - b\<close> and \<^verbatim>\<open>a * b\<close>.\<close>

fun js_sub :: "number \<Rightarrow> number \<Rightarrow> number" where
  "js_sub (Finite a) (Finite b) = round_double (a - b)"
| "js_sub NaN b = NaN"
| "js_sub a NaN = NaN"
| "js_sub PosInfinity PosInfinity = NaN"
| "js_sub NegInfinity NegInfinity = NaN"
| "js_sub PosInfinity b = PosInfinity"
| "js_sub NegInfinity b = NegInfinity"
| "js_sub a PosInfinity = NegInfinity"
| "js_sub a NegInfinity = PosInfinity"

fun js_mul :: "number \<Rightarrow> number \<Rightarrow> number" where
  "js_mul (Finite a) (Finite b) = round_double (a * b)"
| "js_mul NaN b = NaN"
| "js_mul a NaN = NaN"
| "js_mul PosInfinity PosInfinity = PosInfinity"
| "js_mul PosInfinity NegInfinity = NegInfinity"
| "js_mul NegInfinity PosInfinity = NegInfinity"
| "js_mul NegInfinity NegInfinity = PosInfinity"
| "js_mul PosInfinity (Finite b) =
     (if b = 0 then NaN else if 0 < b then PosInfinity else NegInfinity)"
| "js_mul NegInfinity (Finite b) =
     (if b = 0 then NaN else if 0 < b then NegInfinity else PosInfinity)"
| "js_mul (Finite a) PosInfinity =
     (if a = 0 then NaN else if 0 < a then PosInfinity else NegInfinity)"
| "js_mul (Finite a) NegInfinity =
     (if a = 0 then NaN else if 0 < a then NegInfinity else PosInfinity)"

text \<open>The quotient \<^verbatim>\<open>a / 2\<close>, the only division of the source.\<close>

fun js_half :: "number \<Rightarrow> number" where
  "js_half (Finite a) = round_double (a / 2)"
| "js_half a = a"

text \<open>The comparisons \<^verbatim>\<open>a < b\<close>, \<^verbatim>\<open>a > b\<close>, \<^verbatim>\<open>a <= b\<close> and \<^verbatim>\<open>a >= b\<close>: false whenever an
  operand is NaN.\<close>

fun js_lt :: "number \<Rightarrow> number \<Rightarrow> bool" where
  "js_lt (Finite a) (Finite b) = (a < b)"
| "js_lt NaN b = False"
| "js_lt a NaN = False"
| "js_lt a NegInfinity = False"
| "js_lt PosInfinity b = False"
| "js_lt NegInfinity b = True"
| "js_lt a PosInfinity = True"

definition js_gt :: "number \<Rightarrow> number \<Rightarrow> bool" where
  "js_gt a b = js_lt b a"

fun js_le :: "number \<Rightarrow> number \<Rightarrow> bool" where
  "js_le (Finite a) (Finite b) = (a \<le> b)"
| "js_le NaN b = False"
| "js_le a NaN = False"
| "js_le NegInfinity b = True"
| "js_le a PosInfinity = True"
| "js_le a NegInfinity = False"
| "js_le PosInfinity b = False"

definition js_ge :: "number \<Rightarrow> number \<Rightarrow> bool" where
  "js_ge a b = js_le b a"

section \<open>Data model\<close>

datatype FormComponentData =
  FormComponentData
    (comp_id: string)
    (comp_type: string)
    (comp_label: string)
    (comp_children: "FormComponentData list option")

text \<open>The values of the \<^verbatim>\<open>hoverPosition\<close> state:
  \<^verbatim>\<open>'none' | 'top' | 'bottom' | 'left' | 'right' | 'center'\<close>.\<close>

datatype Zone = ZNone | ZTop | ZBottom | ZLeft | ZRight | ZCenter

text \<open>\<^verbatim>\<open>interface DragItem\<close>. The callbacks take \<^verbatim>\<open>item: any\<close> and test
  \<^verbatim>\<open>item.type\<close> and \<^verbatim>\<open>item.component\<close> before use, so both are optional here:
  \<open>item_type = None\<close> stands for a \<^verbatim>\<open>type\<close> that is absent or not a string.\<close>

record DragItem =
  item_type :: "string option"
  item_id :: string
  item_index :: int
  item_component :: "FormComponentData option"

text \<open>The result of \<^verbatim>\<open>getBoundingClientRect()\<close> and of \<^verbatim>\<open>monitor.getClientOffset()\<close>.\<close>

record DOMRect =
  rect_left :: number
  rect_top :: number
  rect_width :: number
  rect_height :: number

record XYCoord =
  coord_x :: number
  coord_y :: number

text \<open>The props the callbacks read. \<^verbatim>\<open>onMoveComponent\<close> is a required prop;
  \<^verbatim>\<open>onCreateRowLayout\<close> and \<^verbatim>\<open>onAddToRowLayout\<close> are optional (\<open>True\<close>: supplied).\<close>

record Props =
  component :: FormComponentData
  index :: int
  onCreateRowLayout :: bool
  onAddToRowLayout :: bool
  allComponents :: "FormComponentData list"

text \<open>A recorded call of a callback prop, with its arguments.\<close>

datatype Request =
  MoveComponent int int
  | CreateRowLayout FormComponentData FormComponentData Zone
  | AddToRowLayout FormComponentData FormComponentData Zone

text \<open>The component's state: the \<^verbatim>\<open>hoverPosition\<close> of \<^verbatim>\<open>useState\<close>, and the trace
  of callback calls made so far.\<close>

record State =
  hoverPosition :: Zone
  calls :: "Request list"

section \<open>DragDropReorderingItem\<close>

text \<open>\<^verbatim>\<open>comp.children.some(child => child.id === targetComponent.id)\<close>, guarded by
  \<^verbatim>\<open>comp.children\<close> being present.\<close>

definition hasChild :: "FormComponentData \<Rightarrow> FormComponentData \<Rightarrow> bool" where
  "hasChild c targetComponent =
     (case comp_children c of
        None \<Rightarrow> False
      | Some cs \<Rightarrow> list_ex (\<lambda>child. comp_id child = comp_id targetComponent) cs)"

text \<open>\<^verbatim>\<open>findParentRowLayout\<close>: the loop over \<^verbatim>\<open>allComponents\<close> returns the first
  \<^verbatim>\<open>horizontal_layout\<close> that has a child with the target's id, else \<^verbatim>\<open>null\<close>
  (the loop variable \<^verbatim>\<open>comp\<close> is \<open>c\<close> here).\<close>

fun findParentRowLayout ::
  "FormComponentData list \<Rightarrow> FormComponentData \<Rightarrow> FormComponentData option" where
  "findParentRowLayout [] targetComponent = None"
| "findParentRowLayout (c # rest) targetComponent =
     (if comp_type c = ''horizontal_layout'' \<and> hasChild c targetComponent
      then Some c
      else findParentRowLayout rest targetComponent)"

text \<open>\<^verbatim>\<open>!item.component && item.type && typeof item.type === 'string'\<close>\<close>

definition isPaletteComponent :: "DragItem \<Rightarrow> bool" where
  "isPaletteComponent item =
     (item_component item = None \<and>
      (case item_type item of None \<Rightarrow> False | Some t \<Rightarrow> t \<noteq> []))"

text \<open>\<^verbatim>\<open>item.type === 'horizontal-component' && item.component\<close>\<close>

definition isHorizontalComponent :: "DragItem \<Rightarrow> bool" where
  "isHorizontalComponent item =
     (item_type item = Some ''horizontal-component'' \<and> item_component item \<noteq> None)"

text \<open>The \<^verbatim>\<open>hover\<close> callback. Its inputs beyond the props are \<^verbatim>\<open>ref.current\<close> (the
  mounted element, given by its bounding rectangle), the monitor's client offset, the
  drag payload (a mutable object: the callback writes \<^verbatim>\<open>item.index\<close>) and the state.
  The zone computation is written twice, as in the source, and every operator on numbers
  is the operator on doubles.\<close>

definition hover ::
  "Props \<Rightarrow> DOMRect option \<Rightarrow> XYCoord option \<Rightarrow> DragItem \<Rightarrow> State \<Rightarrow> DragItem \<times> State" where
  "hover props ref_current clientOffset item st =
     (case ref_current of
        None \<Rightarrow> (item, st)
      | Some hoverBoundingRect \<Rightarrow>
          if isPaletteComponent item \<or> isHorizontalComponent item then
            (case clientOffset of
               None \<Rightarrow> (item, st\<lparr>hoverPosition := ZNone\<rparr>)
             | Some off \<Rightarrow>
                 let width = rect_width hoverBoundingRect;
                     height = rect_height hoverBoundingRect;
                     x = js_sub (coord_x off) (rect_left hoverBoundingRect);
                     y = js_sub (coord_y off) (rect_top hoverBoundingRect);
                     edgeZone = js_lit 0.3;
                     topZone = js_mul height edgeZone;
                     bottomZone = js_mul height (js_sub (js_lit 1) edgeZone);
                     leftZone = js_mul width edgeZone;
                     rightZone = js_mul width (js_sub (js_lit 1) edgeZone);
                     position =
                       (if js_lt y topZone then ZTop
                        else if js_gt y bottomZone then ZBottom
                        else if js_lt x leftZone then ZLeft
                        else if js_gt x rightZone then ZRight
                        else ZCenter)
                 in (item, st\<lparr>hoverPosition := position\<rparr>))
          else
            let dragIndex = item_index item;
                hoverIndex = index props
            in
              if dragIndex = hoverIndex then (item, st\<lparr>hoverPosition := ZNone\<rparr>)
              else
                (case clientOffset of
                   None \<Rightarrow> (item, st\<lparr>hoverPosition := ZNone\<rparr>)
                 | Some off \<Rightarrow>
                     let width = rect_width hoverBoundingRect;
                         height = rect_height hoverBoundingRect;
                         x = js_sub (coord_x off) (rect_left hoverBoundingRect);
                         y = js_sub (coord_y off) (rect_top hoverBoundingRect);
                         edgeZone = js_lit 0.3;
                         topZone = js_mul height edgeZone;
                         bottomZone = js_mul height (js_sub (js_lit 1) edgeZone);
                         leftZone = js_mul width edgeZone;
                         rightZone = js_mul width (js_sub (js_lit 1) edgeZone);
                         position =
                           (if js_lt y topZone then ZTop
                            else if js_gt y bottomZone then ZBottom
                            else if js_lt x leftZone then ZLeft
                            else if js_gt x rightZone then ZRight
                            else ZCenter);
                         st1 = st\<lparr>hoverPosition := position\<rparr>
                     in
                       if position = ZTop \<or> position = ZBottom then
                         let hoverMiddleY = js_half height;
                             hoverClientY = y
                         in
                           if dragIndex < hoverIndex \<and> js_lt hoverClientY hoverMiddleY then
                             (item, st1)
                           else if dragIndex > hoverIndex \<and> js_gt hoverClientY hoverMiddleY then
                             (item, st1)
                           else
                             (item\<lparr>item_index := hoverIndex\<rparr>,
                              st1\<lparr>calls := calls st1 @ [MoveComponent dragIndex hoverIndex]\<rparr>)
                       else (item, st1)))"

text \<open>The \<^verbatim>\<open>drop\<close> callback: it reads \<^verbatim>\<open>hoverPosition\<close>, resets it, and dispatches
  on the payload.\<close>

definition drop_handler :: "Props \<Rightarrow> DragItem \<Rightarrow> State \<Rightarrow> State" where
  "drop_handler props item st =
     (let finalPosition = hoverPosition st;
          st0 = st\<lparr>hoverPosition := ZNone\<rparr>
      in
        if isPaletteComponent item then st0
        else if isHorizontalComponent item then st0
        else
          (case item_component item of
             None \<Rightarrow> st0
           | Some draggedComponent \<Rightarrow>
               if finalPosition = ZLeft \<or> finalPosition = ZRight then
                 (case (findParentRowLayout (allComponents props) (component props),
                        onAddToRowLayout props) of
                    (Some parentRowLayout, True) \<Rightarrow>
                      st0\<lparr>calls := calls st0 @
                        [AddToRowLayout draggedComponent parentRowLayout finalPosition]\<rparr>
                  | _ \<Rightarrow>
                      if onCreateRowLayout props then
                        st0\<lparr>calls := calls st0 @
                          [CreateRowLayout draggedComponent (component props) finalPosition]\<rparr>
                      else st0)
               else st0))"

text \<open>The events a drop target sees during a drag. \<^verbatim>\<open>useDrop\<close> is given the callbacks
  \<^verbatim>\<open>hover\<close> and \<^verbatim>\<open>drop\<close> only (\<^verbatim>\<open>collect\<close> reads the handler id): no code of the
  component runs when the pointer leaves it, so \<open>Leave\<close> changes nothing.\<close>

datatype Event = Hover "DOMRect option" "XYCoord option" | Drop | Leave

fun step :: "Props \<Rightarrow> Event \<Rightarrow> DragItem \<times> State \<Rightarrow> DragItem \<times> State" where
  "step props (Hover ref_current clientOffset) (item, st) =
     hover props ref_current clientOffset item st"
| "step props Drop (item, st) = (item, drop_handler props item st)"
| "step props Leave (item, st) = (item, st)"

fun run :: "Props \<Rightarrow> Event list \<Rightarrow> DragItem \<times> State \<Rightarrow> DragItem \<times> State" where
  "run props [] s = s"
| "run props (e # es) s = run props es (step props e s)"

section \<open>DeleteZone\<close>

text \<open>The payload type of the \<^verbatim>\<open>drop\<close> callback:
  \<^verbatim>\<open>{ type: string; id: string; componentType?: string }\<close>.\<close>

record DeleteItem =
  del_type :: string
  del_id :: string
  del_componentType :: "string option"

text \<open>The \<^verbatim>\<open>drop\<close> callback of \<^verbatim>\<open>DeleteZone\<close>; the trace holds the arguments of the
  calls of \<^verbatim>\<open>onDelete\<close>.\<close>

definition DeleteZone_drop :: "DeleteItem \<Rightarrow> string list \<Rightarrow> string list" where
  "DeleteZone_drop item deleted =
     (if del_type item = ''existing-component'' \<and> del_id item \<noteq> []
      then deleted @ [del_id item]
      else deleted)"

section \<open>The Hit Classifier of the specification\<close>

text \<open>The contract \<^verbatim>\<open>classify(pointer, box) -> Zone\<close> in the words of the specification
  (section 4.1): the pointer is translated to box-local coordinates, the margin fraction is
  \<open>m = 0.3\<close>, the thresholds are \<open>height * m\<close>, \<open>height * (1 - m)\<close>, \<open>width * m\<close> and
  \<open>width * (1 - m)\<close> in the arithmetic of doubles, and the checks run in the order top,
  bottom, left, right, center. The source
  has no function of this name; the theorems below compare it with the zone computation
  that \<open>hover\<close> inlines on both of its paths.\<close>

definition classify_spec :: "XYCoord \<Rightarrow> DOMRect \<Rightarrow> Zone" where
  "classify_spec pointer box =
     (let x = js_sub (coord_x pointer) (rect_left box);
          y = js_sub (coord_y pointer) (rect_top box);
          m = js_lit 0.3;
          topZone = js_mul (rect_height box) m;
          bottomZone = js_mul (rect_height box) (js_sub (js_lit 1) m);
          leftZone = js_mul (rect_width box) m;
          rightZone = js_mul (rect_width box) (js_sub (js_lit 1) m)
      in if js_lt y topZone then ZTop
         else if js_gt y bottomZone then ZBottom
         else if js_lt x leftZone then ZLeft
         else if js_gt x rightZone then ZRight
         else ZCenter)"

section \<open>Example values\<close>

text \<open>Concrete boxes and components on which the theorems are instantiated: boxes of side
  100, 90 and 3 at the origin, an empty box, pointers with finite coordinates, six fields,
  and a row holding \<open>ex_B\<close> and \<open>ex_C\<close>.\<close>

definition ex_box :: DOMRect where
  "ex_box =
     \<lparr>rect_left = Finite 0, rect_top = Finite 0, rect_width = Finite 100,
      rect_height = Finite 100\<rparr>"

definition ex_box90 :: DOMRect where
  "ex_box90 =
     \<lparr>rect_left = Finite 0, rect_top = Finite 0, rect_width = Finite 90,
      rect_height = Finite 90\<rparr>"

definition ex_box3 :: DOMRect where
  "ex_box3 =
     \<lparr>rect_left = Finite 0, rect_top = Finite 0, rect_width = Finite 3,
      rect_height = Finite 3\<rparr>"

definition ex_empty_box :: DOMRect where
  "ex_empty_box =
     \<lparr>rect_left = Finite 40, rect_top = Finite 25, rect_width = Finite 0,
      rect_height = Finite 0\<rparr>"

definition ex_point :: "real \<Rightarrow> real \<Rightarrow> XYCoord" where
  "ex_point a b = \<lparr>coord_x = Finite a, coord_y = Finite b\<rparr>"

definition ex_A :: FormComponentData where
  "ex_A = FormComponentData ''a'' ''text_input'' ''A'' None"

definition ex_B :: FormComponentData where
  "ex_B = FormComponentData ''b'' ''text_input'' ''B'' None"

definition ex_C :: FormComponentData where
  "ex_C = FormComponentData ''c'' ''text_input'' ''C'' None"

definition ex_D :: FormComponentData where
  "ex_D = FormComponentData ''d'' ''text_input'' ''D'' None"

definition ex_E :: FormComponentData where
  "ex_E = FormComponentData ''e'' ''text_input'' ''E'' None"

definition ex_F :: FormComponentData where
  "ex_F = FormComponentData ''f'' ''text_input'' ''F'' None"

definition ex_R :: FormComponentData where
  "ex_R = FormComponentData ''r'' ''horizontal_layout'' ''Row'' (Some [ex_B, ex_C])"

text \<open>A canvas of six fields with \<open>ex_A\<close> at index 2 and \<open>ex_B\<close> at index 5, a canvas where
  \<open>ex_B\<close> is the first member of the row \<open>ex_R\<close>, one where it stands alone at index 1, and
  one where the row \<open>ex_R\<close> comes first and \<open>ex_A\<close> is at index 1.\<close>

definition ex_canvas :: "FormComponentData list" where
  "ex_canvas = [ex_C, ex_D, ex_A, ex_E, ex_F, ex_B]"

definition ex_canvas_row :: "FormComponentData list" where
  "ex_canvas_row = [ex_A, ex_R]"

definition ex_canvas_flat :: "FormComponentData list" where
  "ex_canvas_flat = [ex_A, ex_B]"

definition ex_canvas_row_first :: "FormComponentData list" where
  "ex_canvas_row_first = [ex_R, ex_A]"

text \<open>The payloads: a field type dragged from the palette, \<open>ex_C\<close> dragged out of its row,
  and \<open>ex_A\<close> dragged from index \<open>i\<close> of the canvas.\<close>

definition ex_palette :: DragItem where
  "ex_palette =
     \<lparr>item_type = Some ''text_input'', item_id = [], item_index = 0, item_component = None\<rparr>"

definition ex_row_member :: DragItem where
  "ex_row_member =
     \<lparr>item_type = Some ''horizontal-component'', item_id = ''c'', item_index = 1,
      item_component = Some ex_C\<rparr>"

definition ex_reorder :: "int \<Rightarrow> DragItem" where
  "ex_reorder i =
     \<lparr>item_type = Some ''reorder-component'', item_id = ''a'', item_index = i,
      item_component = Some ex_A\<rparr>"

text \<open>The props of the item that shows \<open>target\<close> at index \<open>i\<close>, and a state with an empty
  trace.\<close>

definition ex_props ::
  "FormComponentData \<Rightarrow> int \<Rightarrow> bool \<Rightarrow> bool \<Rightarrow> FormComponentData list \<Rightarrow> Props" where
  "ex_props target i onCreate onAdd comps =
     \<lparr>component = target, index = i, onCreateRowLayout = onCreate, onAddToRowLayout = onAdd,
      allComponents = comps\<rparr>"

definition ex_state :: "Zone \<Rightarrow> State" where
  "ex_state z = \<lparr>hoverPosition = z, calls = []\<rparr>"

section \<open>Properties of the arithmetic of doubles\<close>

subsection \<open>Rounding to the nearest integer\<close>

lemma round_half_even_of_int: "round_half_even (of_int n) = n"
  by (simp add: round_half_even_def)

lemma round_half_even_bounds:
  "\<lfloor>q\<rfloor> \<le> round_half_even q" "round_half_even q \<le> \<lfloor>q\<rfloor> + 1"
  by (simp_all add: round_half_even_def Let_def)

lemma round_half_even_mono:
  assumes "q \<le> q'"
  shows "round_half_even q \<le> round_half_even q'"
proof (cases "\<lfloor>q\<rfloor> = \<lfloor>q'\<rfloor>")
  case True
  then have "q - of_int \<lfloor>q\<rfloor> \<le> q' - of_int \<lfloor>q'\<rfloor>"
    using assms by simp
  with True show ?thesis
    by (auto simp add: round_half_even_def Let_def)
next
  case False
  have "\<lfloor>q\<rfloor> \<le> \<lfloor>q'\<rfloor>"
    using assms by (rule floor_mono)
  with False have lt: "\<lfloor>q\<rfloor> + 1 \<le> \<lfloor>q'\<rfloor>"
    by simp
  have "round_half_even q \<le> \<lfloor>q\<rfloor> + 1"
    by (rule round_half_even_bounds)
  also note lt
  also have "\<lfloor>q'\<rfloor> \<le> round_half_even q'"
    by (rule round_half_even_bounds)
  finally show ?thesis .
qed

lemma round_half_even_minus: "round_half_even (- q) = - round_half_even q"
proof (cases "q \<in> \<int>")
  case True
  then obtain n where "q = of_int n" by (auto elim: Ints_cases)
  then have "- q = of_int (- n)" by simp
  then show ?thesis
    using \<open>q = of_int n\<close> round_half_even_of_int by metis
next
  case False
  then have ne: "q \<noteq> of_int \<lfloor>q\<rfloor>"
    by (metis Ints_of_int)
  then have f: "\<lfloor>- q\<rfloor> = - \<lfloor>q\<rfloor> - 1"
    by (simp add: floor_minus ceiling_altdef)
  have r: "0 < q - of_int \<lfloor>q\<rfloor>"
    using of_int_floor_le[of q] ne by linarith
  show ?thesis
    using r unfolding round_half_even_def Let_def f
    by (auto simp add: algebra_simps)
qed

lemma round_half_even_nonneg: "0 \<le> q \<Longrightarrow> 0 \<le> round_half_even q"
  using round_half_even_mono[of 0 q] round_half_even_of_int[of 0] by simp

lemma round_half_even_down:
  assumes "q = of_int f + r" and "0 \<le> r" and "r < 1 / 2"
  shows "round_half_even q = f"
proof -
  have "\<lfloor>q\<rfloor> = f"
    using assms by (intro floor_unique) simp_all
  then show ?thesis
    using assms by (simp add: round_half_even_def)
qed

lemma round_half_even_up:
  assumes "q = of_int f + r" and "1 / 2 < r" and "r < 1"
  shows "round_half_even q = f + 1"
proof -
  have "\<lfloor>q\<rfloor> = f"
    using assms by (intro floor_unique) simp_all
  then show ?thesis
    using assms by (simp add: round_half_even_def)
qed

lemma round_half_even_tie:
  assumes "q = of_int f + 1 / 2"
  shows "round_half_even q = (if even f then f else f + 1)"
proof -
  have "\<lfloor>q\<rfloor> = f"
    using assms by (intro floor_unique) simp_all
  then show ?thesis
    using assms by (simp add: round_half_even_def)
qed

subsection \<open>Rounding to the nearest double\<close>

text \<open>The exponent of a value follows from the powers of two that bracket it; a value on
  the grid is its own rounding; rounding is monotone, also across a change of exponent,
  where the power of two between the two values is a double on both grids.\<close>

lemma two_powr_int: "2 powr (of_int k) = (2::real) powi k"
  by (simp add: powr_real_of_int')

lemma two_powr_int_Suc: "2 powr (of_int k + 1) = (2::real) powi (k + 1)"
  using two_powr_int[of "k + 1"] by simp

lemma ulp_exponent_eq:
  assumes "2 powi k \<le> \<bar>x\<bar>" and "\<bar>x\<bar> < 2 powi (k + 1)"
  shows "ulp_exponent x = max (k - 52) (- 1074)"
proof -
  have pos: "0 < \<bar>x\<bar>"
    using assms(1) by (smt (verit) zero_less_power_int)
  have "\<lfloor>log 2 \<bar>x\<bar>\<rfloor> = k"
    using assms pos by (simp add: floor_log_eq_powr_iff two_powr_int two_powr_int_Suc)
  then show ?thesis by (simp add: ulp_exponent_def)
qed

lemma ulp_exponent_bracket:
  assumes "x \<noteq> 0"
  shows "2 powi \<lfloor>log 2 \<bar>x\<bar>\<rfloor> \<le> \<bar>x\<bar>" "\<bar>x\<bar> < 2 powi (\<lfloor>log 2 \<bar>x\<bar>\<rfloor> + 1)"
proof -
  have pos: "0 < \<bar>x\<bar>" using assms by simp
  have "\<lfloor>log 2 \<bar>x\<bar>\<rfloor> = \<lfloor>log 2 \<bar>x\<bar>\<rfloor>" ..
  then have "2 powr (of_int \<lfloor>log 2 \<bar>x\<bar>\<rfloor>) \<le> \<bar>x\<bar> \<and> \<bar>x\<bar> < 2 powr (of_int (\<lfloor>log 2 \<bar>x\<bar>\<rfloor> + 1))"
    using floor_log_eq_powr_iff[OF pos, of 2 "\<lfloor>log 2 \<bar>x\<bar>\<rfloor>"] by simp
  then show "2 powi \<lfloor>log 2 \<bar>x\<bar>\<rfloor> \<le> \<bar>x\<bar>" "\<bar>x\<bar> < 2 powi (\<lfloor>log 2 \<bar>x\<bar>\<rfloor> + 1)"
    by (simp_all add: two_powr_int two_powr_int_Suc)
qed

lemma ulp_exponent_minus: "ulp_exponent (- x) = ulp_exponent x"
  by (simp add: ulp_exponent_def)

lemma ulp_exponent_mono:
  assumes "0 < x" and "x \<le> y"
  shows "ulp_exponent x \<le> ulp_exponent y"
proof -
  have "log 2 \<bar>x\<bar> \<le> log 2 \<bar>y\<bar>"
    using assms by simp
  then have "\<lfloor>log 2 \<bar>x\<bar>\<rfloor> \<le> \<lfloor>log 2 \<bar>y\<bar>\<rfloor>"
    by (rule floor_mono)
  then show ?thesis by (simp add: ulp_exponent_def)
qed

lemma fl_minus: "fl (- x) = - fl x"
  by (simp add: fl_def ulp_exponent_minus round_half_even_minus)

lemma fl_eval:
  assumes "2 powi k \<le> \<bar>x\<bar>" and "\<bar>x\<bar> < 2 powi (k + 1)" and "e = max (k - 52) (- 1074)"
  shows "fl x = of_int (round_half_even (x / 2 powi e)) * 2 powi e"
proof -
  have "x \<noteq> 0"
    using assms(1) by (smt (verit) zero_less_power_int abs_zero)
  then show ?thesis
    using ulp_exponent_eq[OF assms(1,2)] assms(3) by (simp add: fl_def)
qed

lemma fl_exact:
  assumes "2 powi k \<le> \<bar>x\<bar>" and "\<bar>x\<bar> < 2 powi (k + 1)" and "e = max (k - 52) (- 1074)"
    and "x / 2 powi e = of_int m"
  shows "fl x = x"
proof -
  have "fl x = of_int (round_half_even (of_int m)) * 2 powi e"
    using fl_eval[OF assms(1,2,3)] assms(4) by simp
  also have "\<dots> = (x / 2 powi e) * 2 powi e"
    by (simp only: round_half_even_of_int assms(4))
  finally show ?thesis by simp
qed

lemma fl_int:
  assumes "x \<in> \<int>" and "\<bar>x\<bar> < 2 ^ 53"
  shows "fl x = x"
proof (cases "x = 0")
  case True
  then show ?thesis by (simp add: fl_def)
next
  case False
  define k where "k = \<lfloor>log 2 \<bar>x\<bar>\<rfloor>"
  obtain n where n: "x = of_int n" using assms(1) by (auto elim: Ints_cases)
  have lo: "2 powi k \<le> \<bar>x\<bar>" and hi: "\<bar>x\<bar> < 2 powi (k + 1)"
    unfolding k_def using False by (rule ulp_exponent_bracket)+
  have "1 \<le> \<bar>n\<bar>" using False n by simp
  then have one: "1 \<le> \<bar>x\<bar>" unfolding n by (metis of_int_1_le_iff of_int_abs)
  have "\<not> k + 1 \<le> 0"
  proof
    assume "k + 1 \<le> 0"
    then have "(2::real) powi (k + 1) \<le> 2 powi 0"
      by (intro power_int_increasing) simp_all
    with hi one show False by simp
  qed
  then have k0: "0 \<le> k" by simp
  have "(2::real) powi k < 2 powi 53" using lo assms(2) by simp
  then have "k < 53"
    by (rule power_int_le_imp_less_exp[rotated]) simp_all
  then have k52: "k \<le> 52" by simp
  define j where "j = nat (52 - k)"
  have j: "int j = 52 - k" using k52 by (simp add: j_def)
  have e: "k - 52 = max (k - 52) (- 1074)" using k0 by simp
  have "k - 52 = - int j"
    using j by simp
  then have "x / 2 powi (k - 52) = x / 2 powi (- int j)"
    by (simp only:)
  also have "\<dots> = x * 2 powi (int j)"
    by (simp add: power_int_minus field_simps)
  also have "\<dots> = of_int (n * 2 ^ j)" by (simp add: n)
  finally show ?thesis
    using fl_exact[OF lo hi e] by blast
qed

lemma fl_nonneg: "0 \<le> x \<Longrightarrow> 0 \<le> fl x"
  by (simp add: fl_def round_half_even_nonneg)

lemma fl_mono_pos:
  assumes "0 < x" and "x \<le> y"
  shows "fl x \<le> fl y"
proof -
  define ex where "ex = ulp_exponent x"
  define ey where "ey = ulp_exponent y"
  have y: "0 < y" using assms by simp
  have flx: "fl x = of_int (round_half_even (x / 2 powi ex)) * 2 powi ex"
    using assms(1) by (simp add: fl_def ex_def)
  have fly: "fl y = of_int (round_half_even (y / 2 powi ey)) * 2 powi ey"
    using y by (simp add: fl_def ey_def)
  have le: "ex \<le> ey"
    unfolding ex_def ey_def using assms by (rule ulp_exponent_mono)
  show ?thesis
  proof (cases "ex = ey")
    case True
    have "x / 2 powi ey \<le> y / 2 powi ey"
      using assms(2) by (simp add: divide_right_mono)
    then have "round_half_even (x / 2 powi ey) \<le> round_half_even (y / 2 powi ey)"
      by (rule round_half_even_mono)
    then have "of_int (round_half_even (x / 2 powi ey)) * 2 powi ey
        \<le> (of_int (round_half_even (y / 2 powi ey)) :: real) * 2 powi ey"
      by (simp add: mult_right_mono)
    then show ?thesis by (simp add: flx fly True)
  next
    case False
    with le have lt: "ex < ey" by simp
    define b :: real where "b = 2 powi (ey + 52)"
    have ey_def': "ey = \<lfloor>log 2 \<bar>y\<bar>\<rfloor> - 52"
      using lt unfolding ey_def ex_def ulp_exponent_def by linarith
    have "2 powi \<lfloor>log 2 \<bar>y\<bar>\<rfloor> \<le> \<bar>y\<bar>"
      using y by (intro ulp_exponent_bracket) simp
    then have b_le_y: "b \<le> y"
      using y by (simp add: b_def ey_def')
    have "b / 2 powi ey = 2 powi 52"
      by (simp add: b_def power_int_add)
    then have "of_int (2 ^ 52) \<le> y / 2 powi ey"
      using b_le_y divide_right_mono[of b y "2 powi ey"] by simp
    then have "round_half_even (of_int (2 ^ 52)) \<le> round_half_even (y / 2 powi ey)"
      by (rule round_half_even_mono)
    then have "(2 ^ 52 :: int) \<le> round_half_even (y / 2 powi ey)"
      by (simp only: round_half_even_of_int)
    then have "(of_int (2 ^ 52) :: real) \<le> of_int (round_half_even (y / 2 powi ey))"
      by (simp only: of_int_le_iff)
    then have "of_int (2 ^ 52) * 2 powi ey \<le> fl y"
      unfolding fly by (rule mult_right_mono) simp
    moreover have "of_int (2 ^ 52) * 2 powi ey = b"
      by (simp add: b_def power_int_add)
    ultimately have lower: "b \<le> fl y" by simp
    have "\<lfloor>log 2 \<bar>x\<bar>\<rfloor> - 52 \<le> ex"
      by (simp add: ex_def ulp_exponent_def)
    with lt have k: "\<lfloor>log 2 \<bar>x\<bar>\<rfloor> + 1 \<le> ey + 52"
      by simp
    have "\<bar>x\<bar> < 2 powi (\<lfloor>log 2 \<bar>x\<bar>\<rfloor> + 1)"
      using assms(1) by (intro ulp_exponent_bracket) simp
    also have "\<dots> \<le> b"
      unfolding b_def using k by (intro power_int_increasing) simp_all
    finally have xb: "x < b" using assms(1) by simp
    define n where "n = nat (ey + 52 - ex)"
    have n: "int n = ey + 52 - ex"
      using lt by (simp add: n_def)
    have bn: "b = of_int (2 ^ n) * 2 powi ex"
    proof -
      have "b = 2 powi (int n + ex)"
        by (simp add: b_def n)
      also have "\<dots> = 2 powi (int n) * 2 powi ex"
        by (simp add: power_int_add)
      finally show ?thesis by simp
    qed
    have "x / 2 powi ex \<le> b / 2 powi ex"
      using xb by (simp add: divide_right_mono)
    also have "b / 2 powi ex = of_int (2 ^ n)"
      by (simp add: bn)
    finally have "round_half_even (x / 2 powi ex) \<le> round_half_even (of_int (2 ^ n))"
      by (rule round_half_even_mono)
    then have "round_half_even (x / 2 powi ex) \<le> 2 ^ n"
      by (simp only: round_half_even_of_int)
    then have "(of_int (round_half_even (x / 2 powi ex)) :: real) \<le> of_int (2 ^ n)"
      by (simp only: of_int_le_iff)
    then have "fl x \<le> of_int (2 ^ n) * 2 powi ex"
      unfolding flx by (rule mult_right_mono) simp
    then have "fl x \<le> b" by (simp only: bn)
    with lower show ?thesis by simp
  qed
qed

lemma fl_mono:
  assumes "x \<le> y"
  shows "fl x \<le> fl y"
proof -
  consider "0 < x" | "x = 0" | "x < 0" "0 \<le> y" | "x < 0" "y < 0"
    by fastforce
  then show ?thesis
  proof cases
    case 1
    then show ?thesis using assms by (rule fl_mono_pos)
  next
    case 2
    then show ?thesis using assms fl_nonneg[of y] by (simp add: fl_def)
  next
    case 3
    have "0 \<le> fl (- x)" using 3 by (intro fl_nonneg) simp
    then have "fl x \<le> 0" by (simp add: fl_minus)
    also have "0 \<le> fl y" using 3 by (intro fl_nonneg)
    finally show ?thesis .
  next
    case 4
    have "fl (- y) \<le> fl (- x)"
      using 4 assms by (intro fl_mono_pos) simp_all
    then show ?thesis by (simp add: fl_minus)
  qed
qed

subsection \<open>Operators and comparisons\<close>

lemma round_double_finite:
  assumes "\<bar>fl x\<bar> \<le> 2 ^ 53"
  shows "round_double x = Finite (fl x)"
proof -
  have "(2::real) ^ 53 < 2 ^ 1024"
    by (rule power_strict_increasing) simp_all
  with assms have "\<bar>fl x\<bar> < 2 ^ 1024" by simp
  then show ?thesis
    by (simp add: round_double_def Let_def abs_less_iff not_le)
qed

lemma round_double_int:
  assumes "x \<in> \<int>" and "\<bar>x\<bar> < 2 ^ 53"
  shows "round_double x = Finite x"
  using round_double_finite[of x] fl_int[OF assms] assms(2) by simp

lemma round_double_mono:
  assumes "x \<le> y"
  shows "\<not> js_lt (round_double y) (round_double x)"
  using fl_mono[OF assms]
  by (auto simp add: round_double_def Let_def)

lemma js_lt_irrefl: "\<not> js_lt a a"
  by (cases a) simp_all

lemma js_gt_irrefl: "\<not> js_gt a a"
  by (simp add: js_gt_def js_lt_irrefl)

lemma js_lt_not_NaN: "js_lt a b \<Longrightarrow> a \<noteq> NaN \<and> b \<noteq> NaN"
  by (cases a; cases b) simp_all

lemma js_not_lt_ge: "a \<noteq> NaN \<Longrightarrow> b \<noteq> NaN \<Longrightarrow> \<not> js_lt a b \<Longrightarrow> js_ge a b"
  by (cases a; cases b) (simp_all add: js_ge_def)

lemma js_not_gt_le: "a \<noteq> NaN \<Longrightarrow> b \<noteq> NaN \<Longrightarrow> \<not> js_gt a b \<Longrightarrow> js_le a b"
  by (cases a; cases b) (simp_all add: js_gt_def)

lemma js_mul_not_NaN: "js_mul a b \<noteq> NaN \<Longrightarrow> a \<noteq> NaN"
  by (cases a) simp_all

lemma js_half_not_NaN: "a \<noteq> NaN \<Longrightarrow> js_half a \<noteq> NaN"
  by (cases a) (simp_all add: round_double_def Let_def)

subsection \<open>The literals of the source and some products\<close>

text \<open>The doubles denoted by \<^verbatim>\<open>0.3\<close>, \<^verbatim>\<open>0.4\<close>, \<^verbatim>\<open>0.6\<close> and \<^verbatim>\<open>0.7\<close>; the difference
  \<^verbatim>\<open>1 - 0.3\<close> is a tie between two doubles and rounds to the double \<^verbatim>\<open>0.7\<close>; products of the
  heights 100, 90 and 3 with these fractions. The product \<^verbatim>\<open>90 * 0.7\<close> is the double just
  below 63, and \<^verbatim>\<open>3 * 0.3\<close> is a tie that rounds to the double just below \<^verbatim>\<open>0.9\<close>.\<close>

lemma js_lit_0_3: "js_lit 0.3 = Finite (5404319552844595 / 2 ^ 54)"
proof -
  have "round_half_even (0.3 / 2 powi (- 54)) = 5404319552844595"
    by (rule round_half_even_down[where r = "1 / 5"]) (simp_all add: power_int_minus)
  then have "fl 0.3 = 5404319552844595 / 2 ^ 54"
    using fl_eval[of "- 2" "0.3" "- 54"] by (simp add: power_int_minus)
  then show ?thesis
    using round_double_finite[of "0.3"] by (simp add: js_lit_def)
qed

lemma js_lit_0_4: "js_lit 0.4 = Finite (7205759403792794 / 2 ^ 54)"
proof -
  have "round_half_even (0.4 / 2 powi (- 54)) = 7205759403792793 + 1"
    by (rule round_half_even_up[where r = "3 / 5"]) (simp_all add: power_int_minus)
  then have "fl 0.4 = 7205759403792794 / 2 ^ 54"
    using fl_eval[of "- 2" "0.4" "- 54"] by (simp add: power_int_minus)
  then show ?thesis
    using round_double_finite[of "0.4"] by (simp add: js_lit_def)
qed

lemma js_lit_0_6: "js_lit 0.6 = Finite (5404319552844595 / 2 ^ 53)"
proof -
  have "round_half_even (0.6 / 2 powi (- 53)) = 5404319552844595"
    by (rule round_half_even_down[where r = "1 / 5"]) (simp_all add: power_int_minus)
  then have "fl 0.6 = 5404319552844595 / 2 ^ 53"
    using fl_eval[of "- 1" "0.6" "- 53"] by (simp add: power_int_minus)
  then show ?thesis
    using round_double_finite[of "0.6"] by (simp add: js_lit_def)
qed

lemma js_lit_0_7: "js_lit 0.7 = Finite (6305039478318694 / 2 ^ 53)"
proof -
  have "round_half_even (0.7 / 2 powi (- 53)) = 6305039478318694"
    by (rule round_half_even_down[where r = "2 / 5"]) (simp_all add: power_int_minus)
  then have "fl 0.7 = 6305039478318694 / 2 ^ 53"
    using fl_eval[of "- 1" "0.7" "- 53"] by (simp add: power_int_minus)
  then show ?thesis
    using round_double_finite[of "0.7"] by (simp add: js_lit_def)
qed

lemma js_lit_int: "x \<in> \<int> \<Longrightarrow> \<bar>x\<bar> < 2 ^ 53 \<Longrightarrow> js_lit x = Finite x"
  by (simp add: js_lit_def round_double_int)

lemma js_one_minus_0_3: "js_sub (js_lit 1) (js_lit 0.3) = js_lit 0.7"
proof -
  have "round_half_even ((1 - 5404319552844595 / 2 ^ 54) / 2 powi (- 53)) =
      (if even (6305039478318694::int) then 6305039478318694 else 6305039478318694 + 1)"
    by (rule round_half_even_tie) (simp add: power_int_minus)
  then have "round_half_even ((1 - 5404319552844595 / 2 ^ 54) / 2 powi (- 53)) = 6305039478318694"
    by simp
  then have "fl (1 - 5404319552844595 / 2 ^ 54) = 6305039478318694 / 2 ^ 53"
    using fl_eval[of "- 1" "1 - 5404319552844595 / 2 ^ 54" "- 53"] by (simp add: power_int_minus)
  then have "round_double (1 - 5404319552844595 / 2 ^ 54) = Finite (6305039478318694 / 2 ^ 53)"
    using round_double_finite[of "1 - 5404319552844595 / 2 ^ 54"] by simp
  then show ?thesis
    by (simp add: js_lit_0_3 js_lit_0_7 js_lit_int)
qed

lemma js_mul_100_0_3: "js_mul (Finite 100) (js_lit 0.3) = Finite 30"
proof -
  have "round_half_even (100 * (5404319552844595 / 2 ^ 54) / 2 powi (- 48)) = 8444249301319679 + 1"
    by (rule round_half_even_up[where r = "11 / 16"]) (simp_all add: power_int_minus)
  then have "fl (100 * (5404319552844595 / 2 ^ 54)) = 30"
    using fl_eval[of 4 "100 * (5404319552844595 / 2 ^ 54)" "- 48"] by (simp add: power_int_minus)
  then show ?thesis
    using round_double_finite[of "100 * (5404319552844595 / 2 ^ 54)"] by (simp add: js_lit_0_3)
qed

lemma js_mul_100_0_7: "js_mul (Finite 100) (js_lit 0.7) = Finite 70"
proof -
  have "round_half_even (100 * (6305039478318694 / 2 ^ 53) / 2 powi (- 46)) = 4925812092436479 + 1"
    by (rule round_half_even_up[where r = "11 / 16"]) (simp_all add: power_int_minus)
  then have "fl (100 * (6305039478318694 / 2 ^ 53)) = 70"
    using fl_eval[of 6 "100 * (6305039478318694 / 2 ^ 53)" "- 46"] by (simp add: power_int_minus)
  then show ?thesis
    using round_double_finite[of "100 * (6305039478318694 / 2 ^ 53)"] by (simp add: js_lit_0_7)
qed

lemma js_mul_100_0_6: "js_mul (Finite 100) (js_lit 0.6) = Finite 60"
proof -
  have "round_half_even (100 * (5404319552844595 / 2 ^ 53) / 2 powi (- 47)) = 8444249301319679 + 1"
    by (rule round_half_even_up[where r = "11 / 16"]) (simp_all add: power_int_minus)
  then have "fl (100 * (5404319552844595 / 2 ^ 53)) = 60"
    using fl_eval[of 5 "100 * (5404319552844595 / 2 ^ 53)" "- 47"] by (simp add: power_int_minus)
  then show ?thesis
    unfolding js_lit_0_6
    using round_double_finite[of "100 * (5404319552844595 / 2 ^ 53)"] by simp
qed

lemma js_mul_100_0_4: "js_mul (Finite 100) (js_lit 0.4) = Finite 40"
proof -
  have "round_half_even (100 * (7205759403792794 / 2 ^ 54) / 2 powi (- 47)) = 5629499534213120"
    by (rule round_half_even_down[where r = "5 / 16"]) (simp_all add: power_int_minus)
  then have "fl (100 * (7205759403792794 / 2 ^ 54)) = 40"
    using fl_eval[of 5 "100 * (7205759403792794 / 2 ^ 54)" "- 47"] by (simp add: power_int_minus)
  then show ?thesis
    unfolding js_lit_0_4
    using round_double_finite[of "100 * (7205759403792794 / 2 ^ 54)"] by simp
qed

lemma js_mul_90_0_7: "js_mul (Finite 90) (js_lit 0.7) = Finite (8866461766385663 / 2 ^ 47)"
proof -
  have "round_half_even (90 * (6305039478318694 / 2 ^ 53) / 2 powi (- 47)) = 8866461766385663"
    by (rule round_half_even_down[where r = "7 / 16"]) (simp_all add: power_int_minus)
  then have "fl (90 * (6305039478318694 / 2 ^ 53)) = 8866461766385663 / 2 ^ 47"
    using fl_eval[of 5 "90 * (6305039478318694 / 2 ^ 53)" "- 47"] by (simp add: power_int_minus)
  then show ?thesis
    using round_double_finite[of "90 * (6305039478318694 / 2 ^ 53)"] by (simp add: js_lit_0_7)
qed

lemma js_mul_90_0_3: "js_mul (Finite 90) (js_lit 0.3) = Finite 27"
proof -
  have "round_half_even (90 * (5404319552844595 / 2 ^ 54) / 2 powi (- 48)) = 7599824371187711 + 1"
    by (rule round_half_even_up[where r = "23 / 32"]) (simp_all add: power_int_minus)
  then have "fl (90 * (5404319552844595 / 2 ^ 54)) = 27"
    using fl_eval[of 4 "90 * (5404319552844595 / 2 ^ 54)" "- 48"] by (simp add: power_int_minus)
  then show ?thesis
    using round_double_finite[of "90 * (5404319552844595 / 2 ^ 54)"] by (simp add: js_lit_0_3)
qed

lemma js_mul_3_0_3: "js_mul (Finite 3) (js_lit 0.3) = Finite (2026619832316723 / 2 ^ 51)"
proof -
  have "round_half_even (3 * (5404319552844595 / 2 ^ 54) / 2 powi (- 53)) =
      (if even (8106479329266892::int) then 8106479329266892 else 8106479329266892 + 1)"
    by (rule round_half_even_tie) (simp add: power_int_minus)
  then have "round_half_even (3 * (5404319552844595 / 2 ^ 54) / 2 powi (- 53)) = 8106479329266892"
    by simp
  then have "fl (3 * (5404319552844595 / 2 ^ 54)) = 2026619832316723 / 2 ^ 51"
    using fl_eval[of "- 1" "3 * (5404319552844595 / 2 ^ 54)" "- 53"] by (simp add: power_int_minus)
  then show ?thesis
    using round_double_finite[of "3 * (5404319552844595 / 2 ^ 54)"] by (simp add: js_lit_0_3)
qed

lemma js_mul_3_0_7: "js_mul (Finite 3) (js_lit 0.7) = Finite (1182194902184755 / 2 ^ 49)"
proof -
  have "round_half_even (3 * (6305039478318694 / 2 ^ 53) / 2 powi (- 51)) =
      (if even (4728779608739020::int) then 4728779608739020 else 4728779608739020 + 1)"
    by (rule round_half_even_tie) (simp add: power_int_minus)
  then have "round_half_even (3 * (6305039478318694 / 2 ^ 53) / 2 powi (- 51)) = 4728779608739020"
    by simp
  then have "fl (3 * (6305039478318694 / 2 ^ 53)) = 1182194902184755 / 2 ^ 49"
    using fl_eval[of 1 "3 * (6305039478318694 / 2 ^ 53)" "- 51"] by (simp add: power_int_minus)
  then show ?thesis
    using round_double_finite[of "3 * (6305039478318694 / 2 ^ 53)"] by (simp add: js_lit_0_7)
qed

lemma js_mul_0: "js_mul (Finite 0) (Finite c) = Finite 0"
  by (simp add: round_double_int)

section \<open>Properties of the callbacks\<close>

lemmas ex_defs =
  ex_box_def ex_box90_def ex_box3_def ex_empty_box_def ex_point_def
  ex_A_def ex_B_def ex_C_def ex_D_def ex_E_def ex_F_def ex_R_def
  ex_canvas_def ex_canvas_row_def ex_canvas_flat_def ex_canvas_row_first_def
  ex_palette_def ex_row_member_def ex_reorder_def ex_props_def ex_state_def

subsection \<open>The classification of the pointer\<close>

text \<open>The bottom and right thresholds are computed with \<^verbatim>\<open>1 - 0.3\<close>, which is the double
  \<^verbatim>\<open>0.7\<close>. A pointer in the top or bottom band, and the height of its box, are not NaN. A
  local coordinate that is half the extent, or the product of the extent with a fraction
  between \<^verbatim>\<open>0.3\<close> and \<^verbatim>\<open>0.7\<close>, is in neither outer band: rounding is monotone.\<close>

lemma classify_spec_chain:
  "classify_spec pointer box =
     (if js_lt (js_sub (coord_y pointer) (rect_top box)) (js_mul (rect_height box) (js_lit 0.3))
      then ZTop
      else if js_gt (js_sub (coord_y pointer) (rect_top box)) (js_mul (rect_height box) (js_lit 0.7))
      then ZBottom
      else if js_lt (js_sub (coord_x pointer) (rect_left box)) (js_mul (rect_width box) (js_lit 0.3))
      then ZLeft
      else if js_gt (js_sub (coord_x pointer) (rect_left box)) (js_mul (rect_width box) (js_lit 0.7))
      then ZRight
      else ZCenter)"
  by (simp add: classify_spec_def Let_def js_one_minus_0_3)

lemma classify_spec_band_not_NaN:
  assumes "classify_spec pointer box = ZTop \<or> classify_spec pointer box = ZBottom"
  shows "js_sub (coord_y pointer) (rect_top box) \<noteq> NaN \<and> rect_height box \<noteq> NaN"
proof -
  have "js_lt (js_sub (coord_y pointer) (rect_top box)) (js_mul (rect_height box) (js_lit 0.3)) \<or>
        js_lt (js_mul (rect_height box) (js_lit 0.7)) (js_sub (coord_y pointer) (rect_top box))"
    using assms unfolding classify_spec_chain js_gt_def
    by (auto split: if_splits)
  then show ?thesis
    using js_lt_not_NaN js_mul_not_NaN by blast
qed

lemma half_in_middle_band:
  assumes "0 \<le> h"
  shows "\<not> js_lt (js_half (Finite h)) (js_mul (Finite h) (js_lit 0.3))"
    and "\<not> js_gt (js_half (Finite h)) (js_mul (Finite h) (js_lit 0.7))"
proof -
  have "h * (5404319552844595 / 2 ^ 54) \<le> h / 2"
    using assms by simp
  then show "\<not> js_lt (js_half (Finite h)) (js_mul (Finite h) (js_lit 0.3))"
    unfolding js_lit_0_3 js_half.simps js_mul.simps by (rule round_double_mono)
  have "h / 2 \<le> h * (6305039478318694 / 2 ^ 53)"
    using assms by simp
  then show "\<not> js_gt (js_half (Finite h)) (js_mul (Finite h) (js_lit 0.7))"
    unfolding js_lit_0_7 js_half.simps js_mul.simps js_gt_def by (rule round_double_mono)
qed

lemma fraction_in_middle_band:
  assumes "0 \<le> h" and "5404319552844595 / 2 ^ 54 \<le> c" and "c \<le> 6305039478318694 / 2 ^ 53"
  shows "\<not> js_lt (js_mul (Finite h) (Finite c)) (js_mul (Finite h) (js_lit 0.3))"
    and "\<not> js_gt (js_mul (Finite h) (Finite c)) (js_mul (Finite h) (js_lit 0.7))"
proof -
  have "h * (5404319552844595 / 2 ^ 54) \<le> h * c"
    using assms(1,2) by (rule mult_left_mono[rotated])
  then show "\<not> js_lt (js_mul (Finite h) (Finite c)) (js_mul (Finite h) (js_lit 0.3))"
    unfolding js_lit_0_3 js_mul.simps by (rule round_double_mono)
  have "h * c \<le> h * (6305039478318694 / 2 ^ 53)"
    using assms(1,3) by (rule mult_left_mono[rotated])
  then show "\<not> js_gt (js_mul (Finite h) (Finite c)) (js_mul (Finite h) (js_lit 0.7))"
    unfolding js_lit_0_7 js_mul.simps js_gt_def by (rule round_double_mono)
qed

subsection \<open>The paths of \<open>hover\<close>\<close>

text \<open>One lemma for each way through the callback: the element is not mounted, the
  palette and row-member path, a missing client offset, a payload hovering over itself,
  and the reorder path with its move.\<close>

lemma hover_unmounted: "hover props None off item st = (item, st)"
  by (simp add: hover_def)

lemma hover_palette_path:
  assumes "isPaletteComponent item \<or> isHorizontalComponent item"
  shows "hover props (Some r) (Some p) item st = (item, st\<lparr>hoverPosition := classify_spec p r\<rparr>)"
  using assms by (simp add: hover_def classify_spec_def Let_def)

lemma hover_no_offset: "hover props (Some r) None item st = (item, st\<lparr>hoverPosition := ZNone\<rparr>)"
  by (simp add: hover_def Let_def)

lemma hover_self:
  assumes "\<not> isPaletteComponent item" "\<not> isHorizontalComponent item" "item_index item = index props"
  shows "hover props (Some r) off item st = (item, st\<lparr>hoverPosition := ZNone\<rparr>)"
  using assms by (simp add: hover_def Let_def)

lemma hover_reorder_path:
  assumes "\<not> isPaletteComponent item" "\<not> isHorizontalComponent item"
    and "item_index item \<noteq> index props"
  shows "hover props (Some r) (Some p) item st =
           (if (classify_spec p r = ZTop \<or> classify_spec p r = ZBottom) \<and>
               \<not> (item_index item < index props \<and>
                  js_lt (js_sub (coord_y p) (rect_top r)) (js_half (rect_height r))) \<and>
               \<not> (item_index item > index props \<and>
                  js_gt (js_sub (coord_y p) (rect_top r)) (js_half (rect_height r)))
            then (item\<lparr>item_index := index props\<rparr>,
                  st\<lparr>hoverPosition := classify_spec p r,
                     calls := calls st @ [MoveComponent (item_index item) (index props)]\<rparr>)
            else (item, st\<lparr>hoverPosition := classify_spec p r\<rparr>))"
  using assms by (auto simp add: hover_def classify_spec_def Let_def)

lemma hover_reorder_zone:
  assumes "\<not> isPaletteComponent item" "\<not> isHorizontalComponent item"
    and "item_index item \<noteq> index props"
  shows "hoverPosition (snd (hover props (Some r) (Some p) item st)) = classify_spec p r"
  by (simp add: hover_reorder_path[OF assms])

lemma hover_zone:
  assumes "isPaletteComponent item \<or> isHorizontalComponent item \<or> item_index item \<noteq> index props"
  shows "hoverPosition (snd (hover props (Some r) (Some p) item st)) = classify_spec p r"
proof (cases "isPaletteComponent item \<or> isHorizontalComponent item")
  case True
  then show ?thesis by (simp add: hover_palette_path)
next
  case False
  with assms show ?thesis by (simp add: hover_reorder_zone)
qed

subsection \<open>Parent lookup and the paths of \<open>drop\<close>\<close>

lemma findParentRowLayout_Some:
  "findParentRowLayout cs t = Some R \<Longrightarrow>
     R \<in> set cs \<and> comp_type R = ''horizontal_layout'' \<and> hasChild R t"
  by (induction cs) (auto split: if_splits)

lemma findParentRowLayout_None:
  "findParentRowLayout cs t = None \<longleftrightarrow>
     (\<forall>c \<in> set cs. \<not> (comp_type c = ''horizontal_layout'' \<and> hasChild c t))"
  by (induction cs) auto

lemma drop_zone_reset: "hoverPosition (drop_handler props item st) = ZNone"
  by (simp add: drop_handler_def Let_def split: option.splits bool.splits prod.splits)

lemma drop_delegates:
  assumes "item_component item = None \<or> isHorizontalComponent item"
  shows "drop_handler props item st = st\<lparr>hoverPosition := ZNone\<rparr>"
  using assms by (auto simp add: drop_handler_def Let_def)

lemma drop_not_side:
  assumes "hoverPosition st \<noteq> ZLeft" "hoverPosition st \<noteq> ZRight"
  shows "drop_handler props item st = st\<lparr>hoverPosition := ZNone\<rparr>"
  using assms by (auto simp add: drop_handler_def Let_def split: option.splits)

lemma drop_side:
  assumes "item_component item = Some d" "\<not> isHorizontalComponent item"
    and "hoverPosition st = ZLeft \<or> hoverPosition st = ZRight"
  shows "drop_handler props item st =
    (case findParentRowLayout (allComponents props) (component props) of
       Some R \<Rightarrow>
         if onAddToRowLayout props then
           st\<lparr>hoverPosition := ZNone, calls := calls st @ [AddToRowLayout d R (hoverPosition st)]\<rparr>
         else if onCreateRowLayout props then
           st\<lparr>hoverPosition := ZNone, calls := calls st @ [CreateRowLayout d (component props) (hoverPosition st)]\<rparr>
         else st\<lparr>hoverPosition := ZNone\<rparr>
     | None \<Rightarrow>
         if onCreateRowLayout props then
           st\<lparr>hoverPosition := ZNone, calls := calls st @ [CreateRowLayout d (component props) (hoverPosition st)]\<rparr>
         else st\<lparr>hoverPosition := ZNone\<rparr>)"
  using assms
  by (auto simp add: drop_handler_def Let_def isPaletteComponent_def split: option.splits bool.splits)


subsection \<open>Event sequences\<close>

text \<open>While a payload that carries this very item is over it, no event short of the drop
  changes anything but the cached zone.\<close>

lemma step_self_keeps:
  assumes "item_component item = Some d" "\<not> isHorizontalComponent item"
    and "item_index item = index props" and "e \<noteq> Drop"
  shows "\<exists>z. step props e (item, st) = (item, st\<lparr>hoverPosition := z\<rparr>)"
proof (cases e)
  case (Hover ref off)
  from assms(1) have np: "\<not> isPaletteComponent item"
    by (simp add: isPaletteComponent_def)
  show ?thesis
  proof (cases ref)
    case None
    with Hover have "step props e (item, st) = (item, st\<lparr>hoverPosition := hoverPosition st\<rparr>)"
      by (simp add: hover_unmounted)
    then show ?thesis by blast
  next
    case (Some r)
    with Hover np assms(2,3) show ?thesis
      by (auto simp add: hover_self)
  qed
next
  case Drop
  with assms(4) show ?thesis by simp
next
  case Leave
  then have "step props e (item, st) = (item, st\<lparr>hoverPosition := hoverPosition st\<rparr>)"
    by simp
  then show ?thesis by blast
qed

lemma run_self_keeps:
  assumes "item_component item = Some d" "\<not> isHorizontalComponent item"
    and "item_index item = index props" and "Drop \<notin> set es"
  shows "\<exists>z. run props es (item, st) = (item, st\<lparr>hoverPosition := z\<rparr>)"
  using assms(4)
proof (induction es arbitrary: st)
  case Nil
  have "run props [] (item, st) = (item, st\<lparr>hoverPosition := hoverPosition st\<rparr>)"
    by simp
  then show ?case by blast
next
  case (Cons e es)
  then have "e \<noteq> Drop" and rest: "Drop \<notin> set es" by auto
  from step_self_keeps[OF assms(1,2,3) this(1)]
  obtain z where z: "step props e (item, st) = (item, st\<lparr>hoverPosition := z\<rparr>)" by blast
  from Cons.IH[OF rest, of "st\<lparr>hoverPosition := z\<rparr>"]
  obtain z' where "run props es (item, st\<lparr>hoverPosition := z\<rparr>) = (item, st\<lparr>hoverPosition := z'\<rparr>)"
    by auto
  with z show ?case by auto
qed

lemma run_append: "run props (es @ fs) s = run props fs (run props es s)"
  by (induction es arbitrary: s) auto

subsection \<open>The claims\<close>

text \<open>C1. For every pointer position and bounding box, with the pointer translated to
  box-local coordinates \<open>x = pointer.x - box.left\<close>, \<open>y = pointer.y - box.top\<close>, the zone that
  \<open>hover\<close> stores is decided by the checks top, bottom, left, right, center in this order,
  first match winning: \<open>y < height * 0.3\<close> gives top; else \<open>y > height * 0.7\<close> gives bottom;
  else \<open>x < width * 0.3\<close> gives left; else \<open>x > width * 0.7\<close> gives right; else center. The
  differences, products and comparisons are those of doubles, and the threshold
  \<open>height * (1 - 0.3)\<close> of the source is \<open>height * 0.7\<close>. This holds on both paths that
  compute a zone: the palette and row-member path, and the reorder path of a payload whose
  index differs from the hovered item's.\<close>

theorem C1_zone_order:
  assumes "isPaletteComponent item \<or> isHorizontalComponent item \<or> item_index item \<noteq> index props"
    and "x = js_sub (coord_x pointer) (rect_left box)"
    and "y = js_sub (coord_y pointer) (rect_top box)"
    and "width = rect_width box" and "height = rect_height box"
  shows "hoverPosition (snd (hover props (Some box) (Some pointer) item st)) =
           (if js_lt y (js_mul height (js_lit 0.3)) then ZTop
            else if js_gt y (js_mul height (js_lit 0.7)) then ZBottom
            else if js_lt x (js_mul width (js_lit 0.3)) then ZLeft
            else if js_gt x (js_mul width (js_lit 0.7)) then ZRight
            else ZCenter)"
  unfolding hover_zone[OF assms(1)] assms(2-) by (rule classify_spec_chain)

text \<open>The example of the specification: in the box \<open>{left: 0, top: 0, width: 100, height: 100}\<close>
  the pointer \<open>(50, 10)\<close> is classified top although \<open>x\<close> is centred, on either path. In the
  90 by 90 box the pointer \<open>(45, 63)\<close> is classified bottom: the threshold \<open>90 * 0.7\<close> is the
  double just below 63.\<close>

theorem C1_zone_order_witness:
  "isPaletteComponent ex_palette \<and>
   hoverPosition (snd (hover (ex_props ex_B 5 True True ex_canvas) (Some ex_box)
     (Some (ex_point 50 10)) ex_palette (ex_state ZNone))) = ZTop \<and>
   item_index (ex_reorder 2) \<noteq> index (ex_props ex_B 5 True True ex_canvas) \<and>
   hoverPosition (snd (hover (ex_props ex_B 5 True True ex_canvas) (Some ex_box)
     (Some (ex_point 50 10)) (ex_reorder 2) (ex_state ZNone))) = ZTop \<and>
   hoverPosition (snd (hover (ex_props ex_B 5 True True ex_canvas) (Some ex_box90)
     (Some (ex_point 45 63)) ex_palette (ex_state ZNone))) = ZBottom"
proof -
  have p: "isPaletteComponent ex_palette"
    by (simp add: ex_defs isPaletteComponent_def)
  have i: "item_index (ex_reorder 2) \<noteq> index (ex_props ex_B 5 True True ex_canvas)"
    by (simp add: ex_defs)
  have "hoverPosition (snd (hover (ex_props ex_B 5 True True ex_canvas) (Some ex_box)
     (Some (ex_point 50 10)) ex_palette (ex_state ZNone))) = ZTop"
    using C1_zone_order[where props = "ex_props ex_B 5 True True ex_canvas" and box = ex_box
        and pointer = "ex_point 50 10" and st = "ex_state ZNone", OF disjI1, OF p refl refl refl refl]
    by (simp add: ex_box_def ex_point_def round_double_int js_mul_100_0_3)
  moreover have "hoverPosition (snd (hover (ex_props ex_B 5 True True ex_canvas) (Some ex_box)
     (Some (ex_point 50 10)) (ex_reorder 2) (ex_state ZNone))) = ZTop"
    using C1_zone_order[where props = "ex_props ex_B 5 True True ex_canvas" and box = ex_box
        and pointer = "ex_point 50 10" and st = "ex_state ZNone",
        OF disjI2, OF disjI2, OF i refl refl refl refl]
    by (simp add: ex_box_def ex_point_def round_double_int js_mul_100_0_3)
  moreover have "hoverPosition (snd (hover (ex_props ex_B 5 True True ex_canvas) (Some ex_box90)
     (Some (ex_point 45 63)) ex_palette (ex_state ZNone))) = ZBottom"
    using C1_zone_order[where props = "ex_props ex_B 5 True True ex_canvas" and box = ex_box90
        and pointer = "ex_point 45 63" and st = "ex_state ZNone", OF disjI1, OF p refl refl refl refl]
    by (simp add: ex_box90_def ex_point_def round_double_int js_mul_90_0_3 js_mul_90_0_7 js_gt_def)
  ultimately show ?thesis using p i by simp
qed

text \<open>C2, as amended. For every drop of a reorder-origin drag (the payload carries an
  existing component and is not a row member) whose final zone is left or right: if the
  parent lookup finds a row layout \<open>R\<close> for the target (then \<open>R\<close> is a
  \<^verbatim>\<open>horizontal_layout\<close> of \<^verbatim>\<open>allComponents\<close> with a child of the target's id) and
  \<^verbatim>\<open>onAddToRowLayout\<close> is supplied, the drop issues exactly one call
  \<^verbatim>\<open>onAddToRowLayout(dragged, R, side)\<close> and nothing else; if the lookup finds none (no
  \<^verbatim>\<open>horizontal_layout\<close> of \<^verbatim>\<open>allComponents\<close> has such a child) and \<^verbatim>\<open>onCreateRowLayout\<close>
  is supplied, it issues exactly one call \<^verbatim>\<open>onCreateRowLayout(dragged, target, side)\<close> and
  no move.\<close>

theorem C2_row_requests:
  assumes "item_component item = Some d" and "\<not> isHorizontalComponent item"
    and "hoverPosition st = side" and "side = ZLeft \<or> side = ZRight"
    and "parent = findParentRowLayout (allComponents props) (component props)"
  shows "(parent = Some R \<longrightarrow>
            R \<in> set (allComponents props) \<and> comp_type R = ''horizontal_layout'' \<and>
            hasChild R (component props)) \<and>
         (parent = Some R \<and> onAddToRowLayout props \<longrightarrow>
            calls (drop_handler props item st) = calls st @ [AddToRowLayout d R side]) \<and>
         (parent = None \<longleftrightarrow>
            (\<forall>c \<in> set (allComponents props).
               \<not> (comp_type c = ''horizontal_layout'' \<and> hasChild c (component props)))) \<and>
         (parent = None \<and> onCreateRowLayout props \<longrightarrow>
            calls (drop_handler props item st) =
              calls st @ [CreateRowLayout d (component props) side])"
proof -
  have side: "hoverPosition st = ZLeft \<or> hoverPosition st = ZRight"
    using assms(3,4) by simp
  note d = drop_side[OF assms(1,2) side, of props]
  have "parent = Some R \<Longrightarrow>
      R \<in> set (allComponents props) \<and> comp_type R = ''horizontal_layout'' \<and>
      hasChild R (component props)"
    using findParentRowLayout_Some[of "allComponents props" "component props" R] assms(5)
    by simp
  moreover have "parent = Some R \<and> onAddToRowLayout props \<Longrightarrow>
      calls (drop_handler props item st) = calls st @ [AddToRowLayout d R side]"
    using d assms(3,5) by simp
  moreover have "parent = None \<longleftrightarrow>
      (\<forall>c \<in> set (allComponents props).
         \<not> (comp_type c = ''horizontal_layout'' \<and> hasChild c (component props)))"
    using findParentRowLayout_None[of "allComponents props" "component props"] assms(5)
    by simp
  moreover have "parent = None \<and> onCreateRowLayout props \<Longrightarrow>
      calls (drop_handler props item st) =
        calls st @ [CreateRowLayout d (component props) side]"
    using d assms(3,5) by simp
  ultimately show ?thesis by blast
qed

text \<open>Both cases at concrete inputs: \<open>ex_A\<close> dropped on the left of \<open>ex_B\<close>, a member of the row
  \<open>ex_R\<close>, and \<open>ex_A\<close> dropped on the right of \<open>ex_B\<close> at the top level.\<close>

theorem C2_row_requests_witness:
  "item_component (ex_reorder 0) = Some ex_A \<and> \<not> isHorizontalComponent (ex_reorder 0) \<and>
   findParentRowLayout ex_canvas_row ex_B = Some ex_R \<and>
   calls (drop_handler (ex_props ex_B 0 True True ex_canvas_row) (ex_reorder 0) (ex_state ZLeft)) =
     [AddToRowLayout ex_A ex_R ZLeft] \<and>
   findParentRowLayout ex_canvas_flat ex_B = None \<and>
   calls (drop_handler (ex_props ex_B 1 True True ex_canvas_flat) (ex_reorder 0) (ex_state ZRight)) =
     [CreateRowLayout ex_A ex_B ZRight]"
proof -
  have c: "item_component (ex_reorder 0) = Some ex_A"
    by (simp add: ex_defs)
  have h: "\<not> isHorizontalComponent (ex_reorder 0)"
    by (simp add: ex_defs isHorizontalComponent_def)
  have inrow: "findParentRowLayout ex_canvas_row ex_B = Some ex_R"
    by (simp add: ex_defs hasChild_def)
  have norow: "findParentRowLayout ex_canvas_flat ex_B = None"
    by (simp add: ex_defs hasChild_def)
  have "calls (drop_handler (ex_props ex_B 0 True True ex_canvas_row) (ex_reorder 0) (ex_state ZLeft)) =
     [AddToRowLayout ex_A ex_R ZLeft]"
    using C2_row_requests[OF c h, of "ex_state ZLeft" ZLeft "Some ex_R"
        "ex_props ex_B 0 True True ex_canvas_row" ex_R] inrow
    by (simp add: ex_props_def ex_state_def)
  moreover have "calls (drop_handler (ex_props ex_B 1 True True ex_canvas_flat) (ex_reorder 0) (ex_state ZRight)) =
     [CreateRowLayout ex_A ex_B ZRight]"
    using C2_row_requests[OF c h, of "ex_state ZRight" ZRight None
        "ex_props ex_B 1 True True ex_canvas_flat" ex_R] norow
    by (simp add: ex_props_def ex_state_def)
  ultimately show ?thesis using c h inrow norow by simp
qed

text \<open>Without the side condition on the callbacks the statement fails: the target \<open>ex_B\<close>
  belongs to the row \<open>ex_R\<close>, \<^verbatim>\<open>onAddToRowLayout\<close> is not supplied, and the drop issues a
  create-row request and no add-to-row request.\<close>

theorem C2_counterexample:
  "item_component (ex_reorder 0) = Some ex_A \<and> \<not> isHorizontalComponent (ex_reorder 0) \<and>
   findParentRowLayout ex_canvas_row ex_B = Some ex_R \<and>
   calls (drop_handler (ex_props ex_B 0 True False ex_canvas_row) (ex_reorder 0) (ex_state ZRight)) =
     [CreateRowLayout ex_A ex_B ZRight] \<and>
   calls (drop_handler (ex_props ex_B 0 True False ex_canvas_row) (ex_reorder 0) (ex_state ZRight)) \<noteq>
     [AddToRowLayout ex_A ex_R ZRight]"
  by (simp add: ex_defs hasChild_def isHorizontalComponent_def isPaletteComponent_def
      drop_handler_def Let_def)

text \<open>C3, as amended. For a reorder-origin hover over a mounted item with the pointer known
  and \<open>dragIndex \<noteq> hoverIndex\<close> (as for \<open>dragIndex = 2\<close>, \<open>hoverIndex = 5\<close>, moving downward), a
  tick either commits nothing and leaves the payload as it is, or commits exactly one
  \<^verbatim>\<open>onMoveComponent(dragIndex, hoverIndex)\<close>, after which the payload's index is \<open>hoverIndex\<close>.
  It commits if and only if the zone of the tick is top or bottom and the directional guard
  lets it pass. So a downward move commits only when \<open>y \<ge> height / 2\<close> and an upward move only
  when \<open>y \<le> height / 2\<close>; and over a box of height \<open>\<ge> 0\<close> neither a tick at \<open>y = height * 0.4\<close>
  nor a tick at \<open>y = height * 0.6\<close> commits a move, since both lie between the thresholds
  \<open>height * 0.3\<close> and \<open>height * 0.7\<close>, where the zone is left, right or center.\<close>

theorem C3_directional_guard:
  assumes "\<not> isPaletteComponent item" and "\<not> isHorizontalComponent item"
    and "dragIndex = item_index item" and "hoverIndex = index props"
    and "dragIndex \<noteq> hoverIndex"
    and "y = js_sub (coord_y pointer) (rect_top box)" and "height = rect_height box"
    and "res = hover props (Some box) (Some pointer) item st"
  shows "(calls (snd res) = calls st \<and> fst res = item \<or>
          calls (snd res) = calls st @ [MoveComponent dragIndex hoverIndex] \<and>
          item_index (fst res) = hoverIndex) \<and>
         (calls (snd res) \<noteq> calls st \<longleftrightarrow>
            (hoverPosition (snd res) = ZTop \<or> hoverPosition (snd res) = ZBottom) \<and>
            \<not> (dragIndex < hoverIndex \<and> js_lt y (js_half height)) \<and>
            \<not> (dragIndex > hoverIndex \<and> js_gt y (js_half height))) \<and>
         (calls (snd res) \<noteq> calls st \<and> dragIndex < hoverIndex \<longrightarrow> js_ge y (js_half height)) \<and>
         (calls (snd res) \<noteq> calls st \<and> dragIndex > hoverIndex \<longrightarrow> js_le y (js_half height)) \<and>
         (height = Finite h \<and> 0 \<le> h \<and>
          (y = js_mul height (js_lit 0.4) \<or> y = js_mul height (js_lit 0.6)) \<longrightarrow>
            calls (snd res) = calls st \<and> fst res = item)"
proof -
  define z where "z = classify_spec pointer box"
  define go where "go \<longleftrightarrow> (z = ZTop \<or> z = ZBottom) \<and>
      \<not> (dragIndex < hoverIndex \<and> js_lt y (js_half height)) \<and>
      \<not> (dragIndex > hoverIndex \<and> js_gt y (js_half height))"
  have ne: "item_index item \<noteq> index props"
    using assms(3,4,5) by simp
  have res: "res = (if go
      then (item\<lparr>item_index := hoverIndex\<rparr>,
            st\<lparr>hoverPosition := z, calls := calls st @ [MoveComponent dragIndex hoverIndex]\<rparr>)
      else (item, st\<lparr>hoverPosition := z\<rparr>))"
    unfolding assms(8) hover_reorder_path[OF assms(1,2) ne] go_def z_def assms(3,4,6,7) ..
  have zone: "hoverPosition (snd res) = z"
    by (simp add: res)
  have step: "calls (snd res) = calls st \<and> fst res = item \<or>
      calls (snd res) = calls st @ [MoveComponent dragIndex hoverIndex] \<and>
      item_index (fst res) = hoverIndex"
    by (simp add: res)
  have commit: "calls (snd res) \<noteq> calls st \<longleftrightarrow> go"
    by (simp add: res)
  have idle: "\<not> go \<Longrightarrow> calls (snd res) = calls st \<and> fst res = item"
    by (simp add: res)
  have known: "y \<noteq> NaN \<and> js_half height \<noteq> NaN" if "go"
  proof -
    from that have "classify_spec pointer box = ZTop \<or> classify_spec pointer box = ZBottom"
      by (simp add: go_def z_def)
    from classify_spec_band_not_NaN[OF this] show ?thesis
      by (simp add: assms(6,7) js_half_not_NaN)
  qed
  have down: "js_ge y (js_half height)" if "calls (snd res) \<noteq> calls st \<and> dragIndex < hoverIndex"
  proof -
    from that commit have go: "go" and "\<not> js_lt y (js_half height)"
      by (simp_all add: go_def)
    with known[OF go] show ?thesis
      by (simp add: js_not_lt_ge)
  qed
  have up: "js_le y (js_half height)" if "calls (snd res) \<noteq> calls st \<and> dragIndex > hoverIndex"
  proof -
    from that commit have go: "go" and "\<not> js_gt y (js_half height)"
      by (simp_all add: go_def)
    with known[OF go] show ?thesis
      by (simp add: js_not_gt_le)
  qed
  have middle: "calls (snd res) = calls st \<and> fst res = item"
    if "height = Finite h \<and> 0 \<le> h \<and>
        (y = js_mul height (js_lit 0.4) \<or> y = js_mul height (js_lit 0.6))"
  proof -
    from that have y: "y = js_mul (Finite h) (Finite (7205759403792794 / 2 ^ 54)) \<or>
        y = js_mul (Finite h) (Finite (5404319552844595 / 2 ^ 53))"
      unfolding js_lit_0_4 js_lit_0_6 by blast
    from that have h: "0 \<le> h" and ht: "rect_height box = Finite h"
      by (simp_all add: assms(7))
    have "\<not> js_lt y (js_mul (Finite h) (js_lit 0.3)) \<and> \<not> js_gt y (js_mul (Finite h) (js_lit 0.7))"
      using y fraction_in_middle_band[OF h, of "7205759403792794 / 2 ^ 54"]
        fraction_in_middle_band[OF h, of "5404319552844595 / 2 ^ 53"]
      by auto
    then have "z \<noteq> ZTop \<and> z \<noteq> ZBottom"
      unfolding z_def classify_spec_chain ht assms(6) by simp
    then have "\<not> go"
      by (simp add: go_def)
    then show ?thesis by (rule idle)
  qed
  show ?thesis
    using step commit down up middle unfolding zone go_def by blast
qed

text \<open>With \<open>dragIndex = 2\<close> and \<open>hoverIndex = 5\<close>, a tick at \<open>y = 80\<close> in a box of height 100 commits
  one move and the payload's index becomes 5; so does a tick at \<open>y = 63\<close> in a box of height
  90, which lies above the threshold \<open>90 * 0.7\<close> of doubles.\<close>

theorem C3_directional_guard_witness:
  "\<not> isPaletteComponent (ex_reorder 2) \<and> \<not> isHorizontalComponent (ex_reorder 2) \<and>
   item_index (ex_reorder 2) = 2 \<and> index (ex_props ex_B 5 True True ex_canvas) = 5 \<and>
   hover (ex_props ex_B 5 True True ex_canvas) (Some ex_box) (Some (ex_point 50 80))
     (ex_reorder 2) (ex_state ZNone) =
     (ex_reorder 5, \<lparr>hoverPosition = ZBottom, calls = [MoveComponent 2 5]\<rparr>) \<and>
   hover (ex_props ex_B 5 True True ex_canvas) (Some ex_box90) (Some (ex_point 45 63))
     (ex_reorder 2) (ex_state ZNone) =
     (ex_reorder 5, \<lparr>hoverPosition = ZBottom, calls = [MoveComponent 2 5]\<rparr>) \<and>
   js_ge (js_sub (coord_y (ex_point 50 80)) (rect_top ex_box)) (js_half (rect_height ex_box))"
proof -
  have p: "\<not> isPaletteComponent (ex_reorder 2)"
    by (simp add: ex_defs isPaletteComponent_def)
  have h: "\<not> isHorizontalComponent (ex_reorder 2)"
    by (simp add: ex_defs isHorizontalComponent_def)
  have d: "(2::int) = item_index (ex_reorder 2)"
    by (simp add: ex_defs)
  have i: "(5::int) = index (ex_props ex_B 5 True True ex_canvas)"
    by (simp add: ex_defs)
  have ne: "(2::int) \<noteq> 5" by simp
  have e: "hover (ex_props ex_B 5 True True ex_canvas) (Some ex_box) (Some (ex_point 50 80))
     (ex_reorder 2) (ex_state ZNone) =
     (ex_reorder 5, \<lparr>hoverPosition = ZBottom, calls = [MoveComponent 2 5]\<rparr>)"
    using p h
    by (simp add: hover_def Let_def ex_props_def ex_box_def ex_point_def ex_state_def
        ex_reorder_def round_double_int js_one_minus_0_3 js_mul_100_0_3 js_mul_100_0_7 js_gt_def)
  have e90: "hover (ex_props ex_B 5 True True ex_canvas) (Some ex_box90) (Some (ex_point 45 63))
     (ex_reorder 2) (ex_state ZNone) =
     (ex_reorder 5, \<lparr>hoverPosition = ZBottom, calls = [MoveComponent 2 5]\<rparr>)"
    using p h
    by (simp add: hover_def Let_def ex_props_def ex_box90_def ex_point_def ex_state_def
        ex_reorder_def round_double_int js_one_minus_0_3 js_mul_90_0_3 js_mul_90_0_7 js_gt_def)
  have moved: "calls (snd (hover (ex_props ex_B 5 True True ex_canvas) (Some ex_box)
      (Some (ex_point 50 80)) (ex_reorder 2) (ex_state ZNone))) \<noteq> calls (ex_state ZNone) \<and> (2::int) < 5"
    unfolding e by (simp add: ex_state_def)
  from C3_directional_guard[where pointer = "ex_point 50 80" and box = ex_box
      and st = "ex_state ZNone", OF p h d i ne refl refl refl]
    moved
  have "js_ge (js_sub (coord_y (ex_point 50 80)) (rect_top ex_box)) (js_half (rect_height ex_box))"
    by blast
  with p h d i e e90 show ?thesis by simp
qed

text \<open>With \<open>dragIndex = 2\<close> and \<open>hoverIndex = 5\<close>, the tick at \<open>y = height * 0.6\<close> (here \<open>y = 60\<close>,
  height 100) commits nothing: the zone is center, no call is made and the payload's index
  stays 2.\<close>

theorem C3_counterexample:
  "\<not> isPaletteComponent (ex_reorder 2) \<and> \<not> isHorizontalComponent (ex_reorder 2) \<and>
   item_index (ex_reorder 2) = 2 \<and> index (ex_props ex_B 5 True True ex_canvas) = 5 \<and>
   js_sub (coord_y (ex_point 50 60)) (rect_top ex_box) = js_mul (rect_height ex_box) (js_lit 0.6) \<and>
   hover (ex_props ex_B 5 True True ex_canvas) (Some ex_box) (Some (ex_point 50 60))
     (ex_reorder 2) (ex_state ZNone) = (ex_reorder 2, ex_state ZCenter) \<and>
   calls (ex_state ZCenter) = [] \<and> item_index (ex_reorder 2) \<noteq> 5"
proof -
  have a: "js_mul (rect_height ex_box) (js_lit 0.6) = Finite 60"
    by (simp only: ex_box_def DOMRect.select_convs js_mul_100_0_6)
  have b: "js_sub (coord_y (ex_point 50 60)) (rect_top ex_box) = Finite 60"
    by (simp add: ex_box_def ex_point_def round_double_int)
  have y: "js_sub (coord_y (ex_point 50 60)) (rect_top ex_box) =
      js_mul (rect_height ex_box) (js_lit 0.6)"
    using a b by (simp only:)
  have e: "hover (ex_props ex_B 5 True True ex_canvas) (Some ex_box) (Some (ex_point 50 60))
     (ex_reorder 2) (ex_state ZNone) = (ex_reorder 2, ex_state ZCenter)"
    by (simp add: hover_def Let_def ex_props_def ex_box_def ex_point_def ex_state_def
        ex_reorder_def isPaletteComponent_def isHorizontalComponent_def
        round_double_int js_one_minus_0_3 js_mul_100_0_3 js_mul_100_0_7 js_gt_def)
  show ?thesis
    using y e
    by (simp add: ex_reorder_def ex_props_def ex_state_def isPaletteComponent_def
        isHorizontalComponent_def)
qed

text \<open>C4. A reorder-origin payload is dragged over the item it came from
  (\<open>dragIndex = hoverIndex\<close>). Whatever zone is cached beforehand and wherever the pointer is,
  no hover tick issues a request or changes the payload; a tick over the mounted item sets
  the zone to none; the drop that follows it issues no request. So a gesture made of any
  hover and leave events, a last hover tick over the mounted item and the drop leaves the
  trace of calls as it was, with the zone none.\<close>

theorem C4_self_drop_no_requests:
  assumes "item_component item = Some d" and "\<not> isHorizontalComponent item"
    and "item_index item = index props" and "Drop \<notin> set es"
  shows "calls (snd (hover props ref off item st)) = calls st \<and>
         fst (hover props ref off item st) = item \<and>
         hoverPosition (snd (hover props (Some r) off item st)) = ZNone \<and>
         calls (drop_handler props item (snd (hover props (Some r) off item st))) = calls st \<and>
         run props (es @ [Hover (Some r) off, Drop]) (item, st) = (item, st\<lparr>hoverPosition := ZNone\<rparr>)"
proof -
  from assms(1) have np: "\<not> isPaletteComponent item"
    by (simp add: isPaletteComponent_def)
  have tick: "hover props (Some b) off item s = (item, s\<lparr>hoverPosition := ZNone\<rparr>)" for b s
    using np assms(2,3) by (rule hover_self)
  have any_tick: "calls (snd (hover props ref off item st)) = calls st \<and>
      fst (hover props ref off item st) = item"
    by (cases ref) (simp_all add: hover_unmounted tick)
  have at_drop: "drop_handler props item (s\<lparr>hoverPosition := ZNone\<rparr>) = s\<lparr>hoverPosition := ZNone\<rparr>" for s
    by (simp add: drop_not_side)
  obtain z where z: "run props es (item, st) = (item, st\<lparr>hoverPosition := z\<rparr>)"
    using run_self_keeps[OF assms] by blast
  have gesture: "run props (es @ [Hover (Some r) off, Drop]) (item, st) =
      (item, st\<lparr>hoverPosition := ZNone\<rparr>)"
    by (simp add: run_append z tick at_drop)
  show ?thesis
    using any_tick gesture by (simp add: tick at_drop)
qed

text \<open>A gesture on \<open>ex_A\<close> at index 2, starting with the zone left cached and the pointer in
  the left band of the box.\<close>

theorem C4_self_drop_no_requests_witness:
  "item_component (ex_reorder 2) = Some ex_A \<and> \<not> isHorizontalComponent (ex_reorder 2) \<and>
   item_index (ex_reorder 2) = index (ex_props ex_A 2 True True ex_canvas) \<and>
   run (ex_props ex_A 2 True True ex_canvas)
     ([Leave, Hover None None] @ [Hover (Some ex_box) (Some \<lparr>coord_x = Finite 10, coord_y = Finite 50\<rparr>), Drop])
     (ex_reorder 2, ex_state ZLeft) = (ex_reorder 2, ex_state ZNone)"
proof -
  have c: "item_component (ex_reorder 2) = Some ex_A"
    by (simp add: ex_defs)
  have h: "\<not> isHorizontalComponent (ex_reorder 2)"
    by (simp add: ex_defs isHorizontalComponent_def)
  have i: "item_index (ex_reorder 2) = index (ex_props ex_A 2 True True ex_canvas)"
    by (simp add: ex_defs)
  have nd: "Drop \<notin> set [Leave, Hover None None]"
    by simp
  from C4_self_drop_no_requests[where r = ex_box
      and off = "Some \<lparr>coord_x = Finite 10, coord_y = Finite 50\<rparr>" and st = "ex_state ZLeft", OF c h i nd]
  have "run (ex_props ex_A 2 True True ex_canvas)
     ([Leave, Hover None None] @ [Hover (Some ex_box) (Some \<lparr>coord_x = Finite 10, coord_y = Finite 50\<rparr>), Drop])
     (ex_reorder 2, ex_state ZLeft) = (ex_reorder 2, ex_state ZNone)"
    by (simp add: ex_state_def)
  with c h i show ?thesis by simp
qed

text \<open>C5. For every palette-origin drop (the payload has a type string and no component) and
  every row-member-origin drop (type \<^verbatim>\<open>horizontal-component\<close>, carrying a component) the drop
  callback makes no call of \<^verbatim>\<open>onMoveComponent\<close>, \<^verbatim>\<open>onCreateRowLayout\<close> or
  \<^verbatim>\<open>onAddToRowLayout\<close>: all it does is reset the zone. The hover ticks of such a drag (for a
  palette payload, one whose type string is not empty) make no call either and leave the
  payload untouched: they only store the zone.\<close>

theorem C5_delegation:
  assumes "(item_component item = None \<and> item_type item = Some t) \<or>
           (item_type item = Some ''horizontal-component'' \<and> item_component item = Some c)"
  shows "drop_handler props item st = st\<lparr>hoverPosition := ZNone\<rparr> \<and>
         calls (drop_handler props item st) = calls st \<and>
         (isPaletteComponent item \<or> isHorizontalComponent item \<longrightarrow>
            fst (hover props ref off item st) = item \<and>
            calls (snd (hover props ref off item st)) = calls st)"
proof -
  have "item_component item = None \<or> isHorizontalComponent item"
    using assms by (auto simp add: isHorizontalComponent_def)
  then have d: "drop_handler props item st = st\<lparr>hoverPosition := ZNone\<rparr>"
    by (rule drop_delegates)
  have "fst (hover props ref off item st) = item \<and>
        calls (snd (hover props ref off item st)) = calls st"
    if "isPaletteComponent item \<or> isHorizontalComponent item"
  proof (cases ref)
    case None
    then show ?thesis by (simp add: hover_unmounted)
  next
    case (Some r)
    then show ?thesis
      using that by (cases off) (simp_all add: hover_no_offset hover_palette_path)
  qed
  with d show ?thesis by simp
qed

text \<open>A palette payload dropped with the zone left, and a row member dropped with the zone
  right, with both callbacks supplied.\<close>

theorem C5_delegation_witness:
  "item_component ex_palette = None \<and> item_type ex_palette = Some ''text_input'' \<and>
   drop_handler (ex_props ex_B 1 True True ex_canvas_flat) ex_palette (ex_state ZLeft) = ex_state ZNone \<and>
   item_type ex_row_member = Some ''horizontal-component'' \<and>
   item_component ex_row_member = Some ex_C \<and>
   drop_handler (ex_props ex_A 0 True True ex_canvas_row) ex_row_member (ex_state ZRight) = ex_state ZNone"
proof -
  have p: "item_component ex_palette = None \<and> item_type ex_palette = Some ''text_input''"
    by (simp add: ex_defs)
  have r: "item_type ex_row_member = Some ''horizontal-component'' \<and>
           item_component ex_row_member = Some ex_C"
    by (simp add: ex_defs)
  have "drop_handler (ex_props ex_B 1 True True ex_canvas_flat) ex_palette (ex_state ZLeft) = ex_state ZNone"
    using C5_delegation[OF disjI1, OF p, of "ex_props ex_B 1 True True ex_canvas_flat" "ex_state ZLeft"]
    by (simp add: ex_state_def)
  moreover
  have "drop_handler (ex_props ex_A 0 True True ex_canvas_row) ex_row_member (ex_state ZRight) = ex_state ZNone"
    using C5_delegation[OF disjI2, OF r, of "ex_props ex_A 0 True True ex_canvas_row" "ex_state ZRight"]
    by (simp add: ex_state_def)
  ultimately show ?thesis using p r by simp
qed

text \<open>C6. For every hover tick that reaches the query of the client offset (the hovered
  element is mounted) and gets none, for every payload, hence on the palette and row-member
  path as well as on the reorder path: the zone becomes none, no call is made, the payload
  is unchanged, and the callback returns (the model of \<open>hover\<close> has no error outcome, as the
  source has no throwing statement on these paths).\<close>

theorem C6_no_client_offset:
  "hover props (Some box) None item st = (item, st\<lparr>hoverPosition := ZNone\<rparr>) \<and>
   hoverPosition (snd (hover props (Some box) None item st)) = ZNone \<and>
   calls (snd (hover props (Some box) None item st)) = calls st \<and>
   fst (hover props (Some box) None item st) = item"
  by (simp add: hover_no_offset)

text \<open>The three kinds of payload, each with a zone cached before the tick.\<close>

theorem C6_no_client_offset_witness:
  "isPaletteComponent ex_palette \<and>
   hover (ex_props ex_B 5 True True ex_canvas) (Some ex_box) None ex_palette (ex_state ZLeft) =
     (ex_palette, ex_state ZNone) \<and>
   isHorizontalComponent ex_row_member \<and>
   hover (ex_props ex_B 5 True True ex_canvas) (Some ex_box) None ex_row_member (ex_state ZTop) =
     (ex_row_member, ex_state ZNone) \<and>
   \<not> isPaletteComponent (ex_reorder 2) \<and> \<not> isHorizontalComponent (ex_reorder 2) \<and>
   item_index (ex_reorder 2) \<noteq> index (ex_props ex_B 5 True True ex_canvas) \<and>
   hover (ex_props ex_B 5 True True ex_canvas) (Some ex_box) None (ex_reorder 2) (ex_state ZBottom) =
     (ex_reorder 2, ex_state ZNone)"
  using C6_no_client_offset[of "ex_props ex_B 5 True True ex_canvas" ex_box ex_palette "ex_state ZLeft"]
    C6_no_client_offset[of "ex_props ex_B 5 True True ex_canvas" ex_box ex_row_member "ex_state ZTop"]
    C6_no_client_offset[of "ex_props ex_B 5 True True ex_canvas" ex_box "ex_reorder 2" "ex_state ZBottom"]
  by (simp add: ex_state_def ex_palette_def ex_row_member_def ex_reorder_def ex_props_def
      isPaletteComponent_def isHorizontalComponent_def)

text \<open>C7, as amended. The zone stored by a hover tick over the mounted item is computed from
  the tick alone (the payload, the pointer and the box), never from the zone cached before:
  none without a client offset or when a reorder payload is over its own item, the
  classification of the pointer otherwise. The drop resets the zone to none. When the
  pointer leaves the item the zone is not reset: it keeps its last value.\<close>

theorem C7_zone_lifecycle:
  "hoverPosition (snd (hover props (Some box) off item st)) =
     (case off of
        None \<Rightarrow> ZNone
      | Some pointer \<Rightarrow>
          if \<not> isPaletteComponent item \<and> \<not> isHorizontalComponent item \<and>
             item_index item = index props
          then ZNone
          else classify_spec pointer box) \<and>
   hoverPosition (drop_handler props item st) = ZNone \<and>
   step props Leave (item, st) = (item, st)"
proof -
  have "hoverPosition (snd (hover props (Some box) off item st)) =
     (case off of
        None \<Rightarrow> ZNone
      | Some pointer \<Rightarrow>
          if \<not> isPaletteComponent item \<and> \<not> isHorizontalComponent item \<and>
             item_index item = index props
          then ZNone
          else classify_spec pointer box)"
  proof (cases off)
    case None
    then show ?thesis by (simp add: hover_no_offset)
  next
    case (Some pointer)
    show ?thesis
    proof (cases "\<not> isPaletteComponent item \<and> \<not> isHorizontalComponent item \<and>
             item_index item = index props")
      case True
      then show ?thesis using Some by (simp add: hover_self)
    next
      case False
      then have "isPaletteComponent item \<or> isHorizontalComponent item \<or>
          item_index item \<noteq> index props"
        by blast
      from hover_zone[OF this, of box pointer st] False Some show ?thesis
        by auto
    qed
  qed
  then show ?thesis by (simp add: drop_zone_reset)
qed

text \<open>A tick in the left band overwrites a cached top; a drop resets a cached left; leaving
  the item keeps it.\<close>

theorem C7_zone_lifecycle_witness:
  "hoverPosition (snd (hover (ex_props ex_B 5 True True ex_canvas) (Some ex_box)
      (Some \<lparr>coord_x = Finite 10, coord_y = Finite 50\<rparr>) (ex_reorder 2) (ex_state ZTop))) = ZLeft \<and>
   hoverPosition (drop_handler (ex_props ex_B 5 True True ex_canvas) (ex_reorder 2) (ex_state ZLeft)) = ZNone \<and>
   step (ex_props ex_B 5 True True ex_canvas) Leave (ex_reorder 2, ex_state ZLeft) = (ex_reorder 2, ex_state ZLeft)"
  using C7_zone_lifecycle[of "ex_props ex_B 5 True True ex_canvas" ex_box
      "Some \<lparr>coord_x = Finite 10, coord_y = Finite 50\<rparr>" "ex_reorder 2" "ex_state ZTop"]
    C7_zone_lifecycle[of "ex_props ex_B 5 True True ex_canvas" ex_box None "ex_reorder 2" "ex_state ZLeft"]
  by (simp add: classify_spec_chain ex_box_def ex_reorder_def ex_props_def round_double_int
      js_mul_100_0_3 js_mul_100_0_7 js_gt_def)

text \<open>After a hover tick in the top band and the pointer leaving the item, the cached zone
  is still top.\<close>

theorem C7_counterexample:
  "run (ex_props ex_B 5 True True ex_canvas) [Hover (Some ex_box) (Some \<lparr>coord_x = Finite 50, coord_y = Finite 10\<rparr>), Leave]
     (ex_palette, ex_state ZNone) = (ex_palette, ex_state ZTop) \<and>
   hoverPosition (ex_state ZTop) \<noteq> ZNone"
    by (simp add: ex_defs isPaletteComponent_def hover_def Let_def round_double_int
      js_mul_100_0_3)

text \<open>C8, as amended. In the left/right branch of the drop of a reorder-origin drag, when the
  parent lookup finds a row layout \<open>R\<close> for the target (a \<^verbatim>\<open>horizontal_layout\<close> of
  \<^verbatim>\<open>allComponents\<close> with a child of the target's id) but \<^verbatim>\<open>onAddToRowLayout\<close> is not
  supplied, the code falls through to the create-row branch: if \<^verbatim>\<open>onCreateRowLayout\<close> is
  supplied it issues exactly one call \<^verbatim>\<open>onCreateRowLayout(dragged, target, side)\<close>, although
  the target is already a member of the row \<open>R\<close>; if \<^verbatim>\<open>onCreateRowLayout\<close> is not supplied
  either, the drop issues no call.\<close>

theorem C8_create_row_fallthrough:
  assumes "item_component item = Some d" and "\<not> isHorizontalComponent item"
    and "hoverPosition st = side" and "side = ZLeft \<or> side = ZRight"
    and "findParentRowLayout (allComponents props) (component props) = Some R"
    and "\<not> onAddToRowLayout props"
  shows "(onCreateRowLayout props \<longrightarrow>
            calls (drop_handler props item st) =
              calls st @ [CreateRowLayout d (component props) side]) \<and>
         (\<not> onCreateRowLayout props \<longrightarrow> calls (drop_handler props item st) = calls st) \<and>
         R \<in> set (allComponents props) \<and> comp_type R = ''horizontal_layout'' \<and>
         hasChild R (component props)"
proof -
  have side: "hoverPosition st = ZLeft \<or> hoverPosition st = ZRight"
    using assms(3,4) by simp
  from drop_side[OF assms(1,2) side, of props] assms(3,5,6)
  have "(onCreateRowLayout props \<longrightarrow>
            calls (drop_handler props item st) =
              calls st @ [CreateRowLayout d (component props) side]) \<and>
         (\<not> onCreateRowLayout props \<longrightarrow> calls (drop_handler props item st) = calls st)"
    by simp
  with findParentRowLayout_Some[OF assms(5)] show ?thesis by simp
qed

text \<open>\<open>ex_A\<close>, dragged from index 1, is dropped on the left of \<open>ex_B\<close>, the first member of the
  row \<open>ex_R\<close>, by a parent that supplies \<^verbatim>\<open>onCreateRowLayout\<close> only.\<close>

theorem C8_create_row_fallthrough_witness:
  "item_component (ex_reorder 1) = Some ex_A \<and> \<not> isHorizontalComponent (ex_reorder 1) \<and>
   item_index (ex_reorder 1) \<noteq> index (ex_props ex_B 0 True False ex_canvas_row_first) \<and>
   findParentRowLayout (allComponents (ex_props ex_B 0 True False ex_canvas_row_first))
     (component (ex_props ex_B 0 True False ex_canvas_row_first)) = Some ex_R \<and>
   calls (drop_handler (ex_props ex_B 0 True False ex_canvas_row_first) (ex_reorder 1)
     (ex_state ZLeft)) = [CreateRowLayout ex_A ex_B ZLeft]"
proof -
  have c: "item_component (ex_reorder 1) = Some ex_A"
    by (simp add: ex_defs)
  have h: "\<not> isHorizontalComponent (ex_reorder 1)"
    by (simp add: ex_defs isHorizontalComponent_def)
  have i: "item_index (ex_reorder 1) \<noteq> index (ex_props ex_B 0 True False ex_canvas_row_first)"
    by (simp add: ex_defs)
  have z: "hoverPosition (ex_state ZLeft) = ZLeft"
    by (simp add: ex_state_def)
  have inrow: "findParentRowLayout (allComponents (ex_props ex_B 0 True False ex_canvas_row_first))
     (component (ex_props ex_B 0 True False ex_canvas_row_first)) = Some ex_R"
    by (simp add: ex_defs hasChild_def)
  have na: "\<not> onAddToRowLayout (ex_props ex_B 0 True False ex_canvas_row_first)"
    by (simp add: ex_props_def)
  from C8_create_row_fallthrough[OF c h z disjI1 inrow na, OF refl]
  have "calls (drop_handler (ex_props ex_B 0 True False ex_canvas_row_first) (ex_reorder 1)
     (ex_state ZLeft)) = [CreateRowLayout ex_A ex_B ZLeft]"
    by (simp add: ex_props_def ex_state_def)
  with c h i inrow show ?thesis by simp
qed

text \<open>The same drop by a parent that supplies neither callback: the target is a member of
  the row \<open>ex_R\<close>, \<^verbatim>\<open>onAddToRowLayout\<close> is not supplied, and \<^verbatim>\<open>onCreateRowLayout\<close> is not
  called: the drop issues no call at all.\<close>

theorem C8_counterexample:
  "item_component (ex_reorder 1) = Some ex_A \<and> \<not> isHorizontalComponent (ex_reorder 1) \<and>
   findParentRowLayout (allComponents (ex_props ex_B 0 False False ex_canvas_row_first))
     (component (ex_props ex_B 0 False False ex_canvas_row_first)) = Some ex_R \<and>
   \<not> onAddToRowLayout (ex_props ex_B 0 False False ex_canvas_row_first) \<and>
   calls (drop_handler (ex_props ex_B 0 False False ex_canvas_row_first) (ex_reorder 1)
     (ex_state ZLeft)) = [] \<and>
   calls (drop_handler (ex_props ex_B 0 False False ex_canvas_row_first) (ex_reorder 1)
     (ex_state ZLeft)) \<noteq> [CreateRowLayout ex_A ex_B ZLeft]"
  by (simp add: ex_defs hasChild_def isHorizontalComponent_def isPaletteComponent_def
      drop_handler_def Let_def)

text \<open>C9. The four threshold comparisons are strict. On a tick that computes a zone, a pointer
  whose local coordinate equals a threshold, that is the double that the code computes for
  it, is not given that band and is decided by the remaining checks: \<open>y = height * 0.3\<close> is
  not top, \<open>y = height * 0.7\<close> is not bottom, \<open>x = width * 0.3\<close> is not left, \<open>x = width * 0.7\<close> is
  not right. When none of the four strict comparisons holds the zone is center; in
  particular the geometric centre \<open>(width / 2, height / 2)\<close> of a box of any finite width and
  height \<open>\<ge> 0\<close>, the empty box included, is center.\<close>

theorem C9_strict_thresholds:
  assumes "isPaletteComponent item \<or> isHorizontalComponent item \<or> item_index item \<noteq> index props"
    and "x = js_sub (coord_x pointer) (rect_left box)"
    and "y = js_sub (coord_y pointer) (rect_top box)"
    and "width = rect_width box" and "height = rect_height box"
    and "z = hoverPosition (snd (hover props (Some box) (Some pointer) item st))"
  shows "(y = js_mul height (js_lit 0.3) \<longrightarrow> z \<noteq> ZTop \<and>
            z = (if js_gt y (js_mul height (js_lit 0.7)) then ZBottom
                 else if js_lt x (js_mul width (js_lit 0.3)) then ZLeft
                 else if js_gt x (js_mul width (js_lit 0.7)) then ZRight else ZCenter)) \<and>
         (y = js_mul height (js_lit 0.7) \<longrightarrow> z \<noteq> ZBottom \<and>
            z = (if js_lt y (js_mul height (js_lit 0.3)) then ZTop
                 else if js_lt x (js_mul width (js_lit 0.3)) then ZLeft
                 else if js_gt x (js_mul width (js_lit 0.7)) then ZRight else ZCenter)) \<and>
         (x = js_mul width (js_lit 0.3) \<longrightarrow> z \<noteq> ZLeft \<and>
            z = (if js_lt y (js_mul height (js_lit 0.3)) then ZTop
                 else if js_gt y (js_mul height (js_lit 0.7)) then ZBottom
                 else if js_gt x (js_mul width (js_lit 0.7)) then ZRight else ZCenter)) \<and>
         (x = js_mul width (js_lit 0.7) \<longrightarrow> z \<noteq> ZRight \<and>
            z = (if js_lt y (js_mul height (js_lit 0.3)) then ZTop
                 else if js_gt y (js_mul height (js_lit 0.7)) then ZBottom
                 else if js_lt x (js_mul width (js_lit 0.3)) then ZLeft else ZCenter)) \<and>
         (\<not> js_lt y (js_mul height (js_lit 0.3)) \<and> \<not> js_gt y (js_mul height (js_lit 0.7)) \<and>
          \<not> js_lt x (js_mul width (js_lit 0.3)) \<and> \<not> js_gt x (js_mul width (js_lit 0.7))
            \<longrightarrow> z = ZCenter) \<and>
         (width = Finite w \<and> height = Finite h \<and> 0 \<le> w \<and> 0 \<le> h \<and>
          x = js_half width \<and> y = js_half height \<longrightarrow> z = ZCenter)"
proof -
  have z: "z = (if js_lt y (js_mul height (js_lit 0.3)) then ZTop
            else if js_gt y (js_mul height (js_lit 0.7)) then ZBottom
            else if js_lt x (js_mul width (js_lit 0.3)) then ZLeft
            else if js_gt x (js_mul width (js_lit 0.7)) then ZRight
            else ZCenter)"
    unfolding assms(6) hover_zone[OF assms(1)] assms(2-5) by (rule classify_spec_chain)
  have top: "y = js_mul height (js_lit 0.3) \<Longrightarrow> \<not> js_lt y (js_mul height (js_lit 0.3))"
    by (simp only: js_lt_irrefl not_False_eq_True)
  have bottom: "y = js_mul height (js_lit 0.7) \<Longrightarrow> \<not> js_gt y (js_mul height (js_lit 0.7))"
    by (simp only: js_gt_irrefl not_False_eq_True)
  have left: "x = js_mul width (js_lit 0.3) \<Longrightarrow> \<not> js_lt x (js_mul width (js_lit 0.3))"
    by (simp only: js_lt_irrefl not_False_eq_True)
  have right: "x = js_mul width (js_lit 0.7) \<Longrightarrow> \<not> js_gt x (js_mul width (js_lit 0.7))"
    by (simp only: js_gt_irrefl not_False_eq_True)
  have centre: "z = ZCenter"
    if "width = Finite w \<and> height = Finite h \<and> 0 \<le> w \<and> 0 \<le> h \<and>
        x = js_half width \<and> y = js_half height"
  proof -
    from that have w: "0 \<le> w" and h: "0 \<le> h"
      and x: "x = js_half (Finite w)" and y: "y = js_half (Finite h)"
      and wd: "width = Finite w" and ht: "height = Finite h"
      by simp_all
    show ?thesis
      unfolding z x y wd ht
      using half_in_middle_band[OF w] half_in_middle_band[OF h]
      by (simp only: if_False)
  qed
  have "y = js_mul height (js_lit 0.3) \<longrightarrow> z \<noteq> ZTop \<and>
            z = (if js_gt y (js_mul height (js_lit 0.7)) then ZBottom
                 else if js_lt x (js_mul width (js_lit 0.3)) then ZLeft
                 else if js_gt x (js_mul width (js_lit 0.7)) then ZRight else ZCenter)"
    using top z by (auto split: if_splits)
  moreover have "y = js_mul height (js_lit 0.7) \<longrightarrow> z \<noteq> ZBottom \<and>
            z = (if js_lt y (js_mul height (js_lit 0.3)) then ZTop
                 else if js_lt x (js_mul width (js_lit 0.3)) then ZLeft
                 else if js_gt x (js_mul width (js_lit 0.7)) then ZRight else ZCenter)"
    using bottom z by (auto split: if_splits)
  moreover have "x = js_mul width (js_lit 0.3) \<longrightarrow> z \<noteq> ZLeft \<and>
            z = (if js_lt y (js_mul height (js_lit 0.3)) then ZTop
                 else if js_gt y (js_mul height (js_lit 0.7)) then ZBottom
                 else if js_gt x (js_mul width (js_lit 0.7)) then ZRight else ZCenter)"
    using left z by (auto split: if_splits)
  moreover have "x = js_mul width (js_lit 0.7) \<longrightarrow> z \<noteq> ZRight \<and>
            z = (if js_lt y (js_mul height (js_lit 0.3)) then ZTop
                 else if js_gt y (js_mul height (js_lit 0.7)) then ZBottom
                 else if js_lt x (js_mul width (js_lit 0.3)) then ZLeft else ZCenter)"
    using right z by (auto split: if_splits)
  moreover have "\<not> js_lt y (js_mul height (js_lit 0.3)) \<and> \<not> js_gt y (js_mul height (js_lit 0.7)) \<and>
          \<not> js_lt x (js_mul width (js_lit 0.3)) \<and> \<not> js_gt x (js_mul width (js_lit 0.7))
            \<longrightarrow> z = ZCenter"
    using z by simp
  ultimately show ?thesis using centre by blast
qed

text \<open>The pointer \<open>(50, 30)\<close> lies on the top threshold \<open>100 * 0.3\<close> of the 100 by 100 box and
  is center. In the 90 by 90 box the bottom threshold \<open>90 * 0.7\<close> is the double just below
  63, and a pointer with exactly this \<open>y\<close> is center. In the 3 by 3 box the top threshold
  \<open>3 * 0.3\<close> is the double just below \<open>0.9\<close>, and a pointer with exactly this \<open>y\<close> is center.
  The centre of an empty box is center.\<close>

theorem C9_strict_thresholds_witness:
  "isPaletteComponent ex_palette \<and>
   js_sub (coord_y (ex_point 50 30)) (rect_top ex_box) = js_mul (rect_height ex_box) (js_lit 0.3) \<and>
   hoverPosition (snd (hover (ex_props ex_B 5 True True ex_canvas) (Some ex_box)
     (Some (ex_point 50 30)) ex_palette (ex_state ZNone))) = ZCenter \<and>
   js_sub (coord_y (ex_point 45 (8866461766385663 / 2 ^ 47))) (rect_top ex_box90) =
     js_mul (rect_height ex_box90) (js_lit 0.7) \<and>
   hoverPosition (snd (hover (ex_props ex_B 5 True True ex_canvas) (Some ex_box90)
     (Some (ex_point 45 (8866461766385663 / 2 ^ 47))) ex_palette (ex_state ZNone))) = ZCenter \<and>
   js_sub (coord_y (ex_point (3 / 2) (2026619832316723 / 2 ^ 51))) (rect_top ex_box3) =
     js_mul (rect_height ex_box3) (js_lit 0.3) \<and>
   hoverPosition (snd (hover (ex_props ex_B 5 True True ex_canvas) (Some ex_box3)
     (Some (ex_point (3 / 2) (2026619832316723 / 2 ^ 51))) ex_palette (ex_state ZNone))) = ZCenter \<and>
   js_sub (coord_x (ex_point 40 25)) (rect_left ex_empty_box) = js_half (rect_width ex_empty_box) \<and>
   js_sub (coord_y (ex_point 40 25)) (rect_top ex_empty_box) = js_half (rect_height ex_empty_box) \<and>
   hoverPosition (snd (hover (ex_props ex_B 5 True True ex_canvas) (Some ex_empty_box)
     (Some (ex_point 40 25)) ex_palette (ex_state ZNone))) = ZCenter"
proof -
  have p: "isPaletteComponent ex_palette"
    by (simp add: ex_defs isPaletteComponent_def)
  have just_below: "round_double (8866461766385663 / 2 ^ 47) = Finite (8866461766385663 / 2 ^ 47)"
  proof -
    have "fl (8866461766385663 / 2 ^ 47) = 8866461766385663 / 2 ^ 47"
      by (rule fl_exact[of 5 _ "- 47" 8866461766385663]) (simp_all add: power_int_minus)
    then show ?thesis
      using round_double_finite[of "8866461766385663 / 2 ^ 47"] by simp
  qed
  have just_below_09:
    "round_double (2026619832316723 / 2 ^ 51) = Finite (2026619832316723 / 2 ^ 51)"
  proof -
    have "fl (2026619832316723 / 2 ^ 51) = 2026619832316723 / 2 ^ 51"
      by (rule fl_exact[of "- 1" _ "- 53" 8106479329266892]) (simp_all add: power_int_minus)
    then show ?thesis
      using round_double_finite[of "2026619832316723 / 2 ^ 51"] by simp
  qed
  have half3: "round_double (3 / 2) = Finite (3 / 2)"
  proof -
    have "fl (3 / 2) = 3 / 2"
      by (rule fl_exact[of 0 _ "- 52" "3 * 2 ^ 51"]) (simp_all add: power_int_minus)
    then show ?thesis
      using round_double_finite[of "3 / 2"] by simp
  qed
  have y3: "js_sub (coord_y (ex_point (3 / 2) (2026619832316723 / 2 ^ 51))) (rect_top ex_box3) =
      js_mul (rect_height ex_box3) (js_lit 0.3)"
    by (simp add: ex_box3_def ex_point_def just_below_09[simplified] js_mul_3_0_3)
  have y100: "js_sub (coord_y (ex_point 50 30)) (rect_top ex_box) =
      js_mul (rect_height ex_box) (js_lit 0.3)"
    by (simp add: ex_box_def ex_point_def round_double_int js_mul_100_0_3)
  have y90: "js_sub (coord_y (ex_point 45 (8866461766385663 / 2 ^ 47))) (rect_top ex_box90) =
      js_mul (rect_height ex_box90) (js_lit 0.7)"
    by (simp add: ex_box90_def ex_point_def just_below[simplified] js_mul_90_0_7)
  have x0: "js_sub (coord_x (ex_point 40 25)) (rect_left ex_empty_box) =
      js_half (rect_width ex_empty_box)"
    and y0: "js_sub (coord_y (ex_point 40 25)) (rect_top ex_empty_box) =
      js_half (rect_height ex_empty_box)"
    by (simp_all add: ex_empty_box_def ex_point_def round_double_int)
  have w0: "rect_width ex_empty_box = Finite 0 \<and> rect_height ex_empty_box = Finite 0 \<and>
      (0::real) \<le> 0 \<and> (0::real) \<le> 0"
    by (simp add: ex_empty_box_def)
  have "hoverPosition (snd (hover (ex_props ex_B 5 True True ex_canvas) (Some ex_box)
     (Some (ex_point 50 30)) ex_palette (ex_state ZNone))) = ZCenter"
    using C9_strict_thresholds[where props = "ex_props ex_B 5 True True ex_canvas" and box = ex_box
        and pointer = "ex_point 50 30" and st = "ex_state ZNone",
        OF disjI1, OF p refl refl refl refl refl]
    by (simp add: ex_box_def ex_point_def round_double_int js_mul_100_0_3 js_mul_100_0_7 js_gt_def)
  moreover
  have "hoverPosition (snd (hover (ex_props ex_B 5 True True ex_canvas) (Some ex_box90)
     (Some (ex_point 45 (8866461766385663 / 2 ^ 47))) ex_palette (ex_state ZNone))) = ZCenter"
    using C9_strict_thresholds[where props = "ex_props ex_B 5 True True ex_canvas" and box = ex_box90
        and pointer = "ex_point 45 (8866461766385663 / 2 ^ 47)" and st = "ex_state ZNone",
        OF disjI1, OF p refl refl refl refl refl]
    by (simp add: ex_box90_def ex_point_def round_double_int just_below[simplified]
        js_mul_90_0_3 js_mul_90_0_7 js_gt_def)
  moreover
  have "hoverPosition (snd (hover (ex_props ex_B 5 True True ex_canvas) (Some ex_box3)
     (Some (ex_point (3 / 2) (2026619832316723 / 2 ^ 51))) ex_palette (ex_state ZNone))) = ZCenter"
    using C9_strict_thresholds[where props = "ex_props ex_B 5 True True ex_canvas" and box = ex_box3
        and pointer = "ex_point (3 / 2) (2026619832316723 / 2 ^ 51)" and st = "ex_state ZNone",
        OF disjI1, OF p refl refl refl refl refl]
    by (simp add: ex_box3_def ex_point_def half3 just_below_09[simplified]
        js_mul_3_0_3 js_mul_3_0_7 js_gt_def)
  moreover
  have "hoverPosition (snd (hover (ex_props ex_B 5 True True ex_canvas) (Some ex_empty_box)
     (Some (ex_point 40 25)) ex_palette (ex_state ZNone))) = ZCenter"
    using C9_strict_thresholds[where props = "ex_props ex_B 5 True True ex_canvas"
        and box = ex_empty_box and pointer = "ex_point 40 25" and st = "ex_state ZNone"
        and w = 0 and h = 0, OF disjI1, OF p refl refl refl refl refl]
      w0 x0 y0
    by blast
  ultimately show ?thesis using p y100 y90 y3 x0 y0 by (simp only: simp_thms)
qed

text \<open>C10. The drop callback of \<^verbatim>\<open>DeleteZone\<close> calls \<^verbatim>\<open>onDelete\<close> if and only if the payload's
  type is exactly \<^verbatim>\<open>existing-component\<close> and its id is truthy (not the empty string); the
  call is \<^verbatim>\<open>onDelete(item.id)\<close>. A payload with the empty id, or with any other type, causes
  no deletion request.\<close>

theorem C10_delete_zone:
  "((\<exists>cid. DeleteZone_drop item deleted = deleted @ [cid]) \<longleftrightarrow>
      (del_type item = ''existing-component'' \<and> del_id item \<noteq> [])) \<and>
   (del_type item = ''existing-component'' \<and> del_id item \<noteq> [] \<longrightarrow>
      DeleteZone_drop item deleted = deleted @ [del_id item]) \<and>
   (del_id item = [] \<or> del_type item \<noteq> ''existing-component'' \<longrightarrow>
      DeleteZone_drop item deleted = deleted)"
  by (auto simp add: DeleteZone_drop_def)

text \<open>One deletion for a well-formed payload, none for the empty id or another type.\<close>

theorem C10_delete_zone_witness:
  "DeleteZone_drop \<lparr>del_type = ''existing-component'', del_id = ''a'', del_componentType = None\<rparr> []
     = [''a''] \<and>
   DeleteZone_drop \<lparr>del_type = ''existing-component'', del_id = [], del_componentType = None\<rparr> []
     = [] \<and>
   DeleteZone_drop \<lparr>del_type = ''reorder-component'', del_id = ''a'', del_componentType = None\<rparr> []
     = []"
  using C10_delete_zone[of "\<lparr>del_type = ''existing-component'', del_id = ''a'', del_componentType = None\<rparr>" "[]"]
    C10_delete_zone[of "\<lparr>del_type = ''existing-component'', del_id = [], del_componentType = None\<rparr>" "[]"]
    C10_delete_zone[of "\<lparr>del_type = ''reorder-component'', del_id = ''a'', del_componentType = None\<rparr>" "[]"]
  by simp

end
